theory Spec2Isabelle
  imports Complex_Main "HOL-Library.Product_Lexorder"
begin

section \<open>Tables\<close>

text \<open>
  The three epoch scripts (\<^verbatim>\<open>id_bluebelts_past.py\<close>, \<^verbatim>\<open>id_bluebelts_present.py\<close>,
  \<^verbatim>\<open>id_bluebelts_future.py\<close>) are straight-line pandas programs. A table is modelled
  column-wise, as pandas stores it: an ordered list of named columns, each a list of cells of
  the same length. A cell is the missing value or a number: the real value of a
  floating-point number. A label may occur twice in a table, as in pandas.
\<close>

datatype cell = NaN | Num real

text \<open>
  The scripts compute with floating-point numbers in three places, and what they compute
  there depends on rounding and on the order in which pandas adds. These operations are
  parameters of the model, and every theorem holds whatever they are:
  \<^item> \<open>gsum\<close>: the \<^verbatim>\<open>'sum'\<close> of a group, applied to the values present in the group in
    row order;
  \<^item> \<open>rsum\<close>: the row sum \<^verbatim>\<open>.sum(axis=1)\<close>, applied to the values present in the row
    in column order;
  \<^item> \<open>fmul\<close>: the product of a constant and a value, \<^verbatim>\<open>0.10 * final_df['area']\<close>.
  Comparisons of floating-point numbers are exact, so they are comparisons of reals.
\<close>

record arith =
  gsum :: "real list \<Rightarrow> real"
  rsum :: "real list \<Rightarrow> real"
  fmul :: "real \<Rightarrow> real \<Rightarrow> real"

type_synonym series = "cell list"

type_synonym frame = "(string \<times> series) list"

datatype error = KeyError string | ValueError string | MergeError string | IndexError

definition bindE :: "error + 'a \<Rightarrow> ('a \<Rightarrow> error + 'b) \<Rightarrow> error + 'b" where
  "bindE r f = (case r of Inl e \<Rightarrow> Inl e | Inr v \<Rightarrow> f v)"

definition names :: "frame \<Rightarrow> string list" where
  "names df = map fst df"

definition nrows :: "frame \<Rightarrow> nat" where
  "nrows df = (case df of [] \<Rightarrow> 0 | c # _ \<Rightarrow> length (snd c))"

text \<open>\<^verbatim>\<open>df[n]\<close>: the column labelled \<open>n\<close>; a KeyError when there is none. With a repeated
  label pandas returns a sub-table, on which the scripts' column operations fail.\<close>

definition getitem :: "frame \<Rightarrow> string \<Rightarrow> error + series" where
  "getitem df n =
     (case filter (\<lambda>c. fst c = n) df of
        [] \<Rightarrow> Inl (KeyError n)
      | [c] \<Rightarrow> Inr (snd c)
      | _ \<Rightarrow> Inl (ValueError n))"

fun getitems :: "frame \<Rightarrow> string list \<Rightarrow> error + series list" where
  "getitems df [] = Inr []"
| "getitems df (n # ns) =
     bindE (getitem df n) (\<lambda>s. bindE (getitems df ns) (\<lambda>ss. Inr (s # ss)))"

text \<open>\<^verbatim>\<open>df[n] = s\<close>: overwrite the column in place, or append a new one.\<close>

definition setitem :: "frame \<Rightarrow> string \<Rightarrow> series \<Rightarrow> frame" where
  "setitem df n s =
     (if n \<in> set (names df) then map (\<lambda>c. if fst c = n then (n, s) else c) df
      else df @ [(n, s)])"

text \<open>\<^verbatim>\<open>df[cols]\<close> with a list of labels that are all present.\<close>

definition select :: "frame \<Rightarrow> string list \<Rightarrow> frame" where
  "select df cols = concat (map (\<lambda>n. filter (\<lambda>c. fst c = n) df) cols)"

subsection \<open>groupby(...).agg(...).reset_index()\<close>

datatype aggfn = AggSum | AggFirst

fun nums :: "series \<Rightarrow> real list" where
  "nums [] = []"
| "nums (NaN # vs) = nums vs"
| "nums (Num r # vs) = r # nums vs"

text \<open>\<^verbatim>\<open>'sum'\<close> adds the values that are present; \<^verbatim>\<open>'first'\<close> is the first value that
  is present, missing when none is.\<close>

fun agg :: "arith \<Rightarrow> aggfn \<Rightarrow> series \<Rightarrow> cell" where
  "agg fp AggSum vs = Num (gsum fp (nums vs))"
| "agg fp AggFirst vs = (case filter (\<lambda>v. v \<noteq> NaN) vs of [] \<Rightarrow> NaN | v # _ \<Rightarrow> v)"

fun cell_rank :: "cell \<Rightarrow> nat \<times> real" where
  "cell_rank (Num r) = (0, r)"
| "cell_rank NaN = (1, 0)"

text \<open>Group keys: the distinct keys that are present, in ascending order (pandas'
  defaults \<^verbatim>\<open>sort=True\<close>, \<^verbatim>\<open>dropna=True\<close>).\<close>

definition group_keys :: "series \<Rightarrow> series" where
  "group_keys ks = sort_key cell_rank (remdups (filter (\<lambda>k. k \<noteq> NaN) ks))"

definition group_cells :: "series \<Rightarrow> series \<Rightarrow> cell \<Rightarrow> series" where
  "group_cells ks col k = map snd (filter (\<lambda>p. fst p = k) (zip ks col))"

definition groupby_agg :: "arith \<Rightarrow> frame \<Rightarrow> string \<Rightarrow> (string \<times> aggfn) list \<Rightarrow> error + frame" where
  "groupby_agg fp df by spec =
     bindE (getitem df by) (\<lambda>ks.
     bindE (getitems df (map fst spec)) (\<lambda>cols.
       Inr ((by, group_keys ks) #
            map2 (\<lambda>nf col. (fst nf, map (\<lambda>k. agg fp (snd nf) (group_cells ks col k)) (group_keys ks)))
              spec cols)))"

subsection \<open>merge\<close>

datatype how = LeftJoin | OuterJoin

definition positions :: "series \<Rightarrow> cell \<Rightarrow> nat list" where
  "positions ks k = filter (\<lambda>i. ks ! i = k) [0..<length ks]"

text \<open>The rows of one key: every left row with every right row; a side without a row for
  the key contributes missing values.\<close>

definition pair_up :: "nat list \<Rightarrow> nat list \<Rightarrow> (nat option \<times> nat option) list" where
  "pair_up ls rs =
     (if rs = [] then map (\<lambda>i. (Some i, None)) ls
      else if ls = [] then map (\<lambda>j. (None, Some j)) rs
      else concat (map (\<lambda>i. map (\<lambda>j. (Some i, Some j)) rs) ls))"

text \<open>A left join keeps the left rows in their order; an outer join takes the union of the
  keys of both sides in ascending order. Missing keys match each other, as in pandas.\<close>

fun join_index :: "how \<Rightarrow> series \<Rightarrow> series \<Rightarrow> (nat option \<times> nat option) list" where
  "join_index LeftJoin lk rk =
     concat (map (\<lambda>i. pair_up [i] (positions rk (lk ! i))) [0..<length lk])"
| "join_index OuterJoin lk rk =
     concat (map (\<lambda>k. pair_up (positions lk k) (positions rk k))
                 (sort_key cell_rank (remdups (lk @ rk))))"

definition take_rows :: "series \<Rightarrow> nat option list \<Rightarrow> series" where
  "take_rows s idx = map (\<lambda>io. case io of None \<Rightarrow> NaN | Some i \<Rightarrow> s ! i) idx"

definition join_keys :: "series \<Rightarrow> series \<Rightarrow> (nat option \<times> nat option) list \<Rightarrow> series" where
  "join_keys lk rk idx =
     map (\<lambda>p. case fst p of Some i \<Rightarrow> lk ! i
               | None \<Rightarrow> (case snd p of Some j \<Rightarrow> rk ! j | None \<Rightarrow> NaN)) idx"

text \<open>Labels that a suffix turned into a repetition of another label of the same side
  (pandas refuses the merge then).\<close>

definition suffix_dups :: "string list \<Rightarrow> string list \<Rightarrow> string list" where
  "suffix_dups old new =
     map (\<lambda>i. new ! i)
       (filter (\<lambda>i. new ! i \<in> set (take i new) \<and> old ! i \<notin> set (take i old)) [0..<length new])"

text \<open>\<^verbatim>\<open>left.merge(right, on=on, how=how, suffixes=suffixes)\<close>. The right key column is
  dropped; a label that occurs on both sides gets the left suffix on the left and the right
  suffix on the right.\<close>

definition merge :: "frame \<Rightarrow> frame \<Rightarrow> string \<Rightarrow> how \<Rightarrow> string \<times> string \<Rightarrow> error + frame" where
  "merge left right on hw suffixes =
     bindE (getitem left on) (\<lambda>lk.
     bindE (getitem right on) (\<lambda>rk.
       let right' = filter (\<lambda>c. fst c \<noteq> on) right;
           to_rename = filter (\<lambda>n. n \<in> set (names right')) (names left);
           lren = (\<lambda>n. if n \<in> set to_rename then n @ fst suffixes else n);
           rren = (\<lambda>n. if n \<in> set to_rename then n @ snd suffixes else n);
           idx = join_index hw lk rk
       in if suffix_dups (names left) (map lren (names left)) \<noteq> []
             \<or> suffix_dups (names right') (map rren (names right')) \<noteq> []
          then Inl (MergeError on)
          else Inr (map (\<lambda>c. (lren (fst c),
                               if fst c = on then join_keys lk rk idx
                               else take_rows (snd c) (map fst idx))) left
                    @ map (\<lambda>c. (rren (fst c), take_rows (snd c) (map snd idx))) right')))"

subsection \<open>Column operations\<close>

text \<open>Comparisons with a missing value are false.\<close>

fun cell_ge :: "cell \<Rightarrow> cell \<Rightarrow> bool" where
  "cell_ge (Num a) (Num b) = (b \<le> a)"
| "cell_ge _ _ = False"

fun cell_eq :: "cell \<Rightarrow> cell \<Rightarrow> bool" where
  "cell_eq (Num a) (Num b) = (a = b)"
| "cell_eq _ _ = False"

definition ge :: "series \<Rightarrow> series \<Rightarrow> bool list" where
  "ge a b = map2 cell_ge a b"

definition ge_scalar :: "series \<Rightarrow> real \<Rightarrow> bool list" where
  "ge_scalar a c = map (\<lambda>x. cell_ge x (Num c)) a"

definition eq_scalar :: "series \<Rightarrow> real \<Rightarrow> bool list" where
  "eq_scalar a c = map (\<lambda>x. cell_eq x (Num c)) a"

definition or_mask :: "bool list \<Rightarrow> bool list \<Rightarrow> bool list" where
  "or_mask a b = map2 (\<or>) a b"

definition scale :: "arith \<Rightarrow> real \<Rightarrow> series \<Rightarrow> series" where
  "scale fp c a = map (\<lambda>x. case x of NaN \<Rightarrow> NaN | Num r \<Rightarrow> Num (fmul fp c r)) a"

definition astype_int :: "bool list \<Rightarrow> series" where
  "astype_int bs = map (\<lambda>b. Num (if b then 1 else 0)) bs"

text \<open>\<^verbatim>\<open>df[cols].sum(axis=1)\<close>: the sum of each row over the given columns, missing values
  skipped.\<close>

definition sum_axis1 :: "arith \<Rightarrow> nat \<Rightarrow> series list \<Rightarrow> series" where
  "sum_axis1 fp n cols = map (\<lambda>i. Num (rsum fp (nums (map (\<lambda>s. s ! i) cols)))) [0..<n]"

text \<open>\<^verbatim>\<open>df.get(n, d)\<close>, the default broadcast over the rows.\<close>

definition get :: "frame \<Rightarrow> string \<Rightarrow> real \<Rightarrow> series" where
  "get df n d = (case map_of df n of Some s \<Rightarrow> s | None \<Rightarrow> replicate (nrows df) (Num d))"

text \<open>\<^verbatim>\<open>df.loc[mask, n] = v\<close>: the cells of column \<open>n\<close> in the rows selected by the mask
  are overwritten (a column that does not exist yet starts out all missing).\<close>

definition loc_assign :: "frame \<Rightarrow> bool list \<Rightarrow> string \<Rightarrow> real \<Rightarrow> frame" where
  "loc_assign df msk n v =
     (let old = (case map_of df n of Some s \<Rightarrow> s | None \<Rightarrow> replicate (nrows df) NaN)
      in setitem df n (map2 (\<lambda>m x. if m then Num v else x) msk old))"

section \<open>Inputs\<close>

text \<open>
  Reading the vector files, reprojecting them and intersecting geometries is the work of
  geopandas. The scripts read one property of a geometry, its area, so a geometry cell holds
  that area. An atomic polygon has its \<^verbatim>\<open>unique_id\<close> (missing when the file has none for
  it) and its geometry.
\<close>

record zone =
  unique_id :: cell
  geometry :: real

text \<open>One row of \<^verbatim>\<open>gpd.overlay(atomic_polygons, gdf, how='intersection')\<close>: the
  \<^verbatim>\<open>unique_id\<close> of the atomic polygon, the layer's flag and flood-class attributes, and the
  geometry of the intersection.\<close>

record fragment =
  frag_unique_id :: cell
  frag_flag :: cell
  frag_class :: cell
  frag_geometry :: real

text \<open>An entry of the lists \<^verbatim>\<open>shapefiles_past\<close>, \<^verbatim>\<open>shapefiles_present\<close>,
  \<^verbatim>\<open>shapefiles_future\<close>. For a polygon layer \<open>gdf\<close> holds the layer as the overlay with
  the atomic polygons returns it.\<close>

record layer =
  gdf :: frame
  flag_field :: string
  flood_type :: "string option"

text \<open>One record of the 311 point layer, with the attributes the present script names.\<close>

record point =
  pt_unique_id :: cell
  pt_depcall :: cell
  pt_Point_Coun :: cell

definition area_of :: "series \<Rightarrow> series" where
  "area_of g = g"

text \<open>\<^verbatim>\<open>atomic_polygons['area'] = atomic_polygons.geometry.area\<close>\<close>

definition atomic_polygons :: "zone list \<Rightarrow> frame" where
  "atomic_polygons zs =
     (let df = [(''unique_id'', map unique_id zs), (''geometry'', map (\<lambda>z. Num (geometry z)) zs)]
      in setitem df ''area'' (area_of (map (\<lambda>z. Num (geometry z)) zs)))"

text \<open>The overlay table of a layer whose file has the flag attribute \<open>ff\<close> and, when
  \<open>ft\<close> is given, the flood-class attribute \<open>ft\<close>.\<close>

definition overlay :: "fragment list \<Rightarrow> string \<Rightarrow> string option \<Rightarrow> frame" where
  "overlay fs ff ft =
     [(''unique_id'', map frag_unique_id fs), (ff, map frag_flag fs)]
     @ (case ft of None \<Rightarrow> [] | Some t \<Rightarrow> [(t, map frag_class fs)])
     @ [(''geometry'', map (\<lambda>f. Num (frag_geometry f)) fs)]"

text \<open>The attribute table of a 311 layer that has all three attributes; a point has
  area 0.\<close>

definition points_table :: "point list \<Rightarrow> frame" where
  "points_table ps =
     [(''unique_id'', map pt_unique_id ps), (''depcall'', map pt_depcall ps),
      (''Point_Coun'', map pt_Point_Coun ps), (''geometry'', map (\<lambda>p. Num 0) ps)]"

section \<open>The steps shared by the three scripts\<close>

fun mapE :: "('a \<Rightarrow> error + 'b) \<Rightarrow> 'a list \<Rightarrow> error + 'b list" where
  "mapE f [] = Inr []"
| "mapE f (x # xs) = bindE (f x) (\<lambda>y. bindE (mapE f xs) (\<lambda>ys. Inr (y # ys)))"

text \<open>\<^verbatim>\<open>flag_field[:-2] + 'A'\<close>\<close>

definition new_field_name :: "string \<Rightarrow> string" where
  "new_field_name ff = take (length ff - 2) ff @ ''A''"

text \<open>\<^verbatim>\<open>intersection_result[new_field_name] = intersection_result['geometry'].area\<close>\<close>

definition intersection_result :: "layer \<Rightarrow> error + frame" where
  "intersection_result l =
     bindE (getitem (gdf l) ''geometry'') (\<lambda>g.
       Inr (setitem (gdf l) (new_field_name (flag_field l)) (area_of g)))"

text \<open>Decimal digits of a counter, for \<^verbatim>\<open>f"_{suffix_counter}"\<close>.\<close>

fun str :: "nat \<Rightarrow> string" where
  "str n = (if n < 10 then [char_of (48 + n)] else str (n div 10) @ [char_of (48 + n mod 10)])"

declare str.simps [simp del]

text \<open>The merge loop: \<^verbatim>\<open>final_df = dataframes[0]\<close>, then each further table is joined
  with \<^verbatim>\<open>how='outer'\<close> and \<^verbatim>\<open>suffixes=(suffix, suffix)\<close>.\<close>

fun merge_loop :: "frame \<Rightarrow> nat \<Rightarrow> frame list \<Rightarrow> error + frame" where
  "merge_loop final_df suffix_counter [] = Inr final_df"
| "merge_loop final_df suffix_counter (df # dfs) =
     (let suffix = ''_'' @ str (suffix_counter + 1)
      in bindE (merge final_df df ''unique_id'' OuterJoin (suffix, suffix)) (\<lambda>final_df'.
           merge_loop final_df' (suffix_counter + 1) dfs))"

definition merge_dataframes :: "frame list \<Rightarrow> error + frame" where
  "merge_dataframes dataframes =
     (case dataframes of [] \<Rightarrow> Inl IndexError | d # ds \<Rightarrow> merge_loop d 0 ds)"

text \<open>The loop \<^verbatim>\<open>for n in new_field_names\<close> of the present and future scripts:
  \<^verbatim>\<open>final_df[n + 'fg'] = (final_df[n] >= 0.10 * final_df['area']).astype(int)\<close>\<close>

fun area_flags :: "arith \<Rightarrow> string list \<Rightarrow> frame \<Rightarrow> error + frame" where
  "area_flags fp [] final_df = Inr final_df"
| "area_flags fp (n # ns) final_df =
     bindE (getitem final_df ''area'') (\<lambda>area.
     let threshold = scale fp (10 / 100) area; new_flag = n @ ''fg'' in
     bindE (getitem final_df n) (\<lambda>col.
       area_flags fp ns (setitem final_df new_flag (astype_int (ge col threshold)))))"

text \<open>\<^verbatim>\<open>final_df[bz] = 0\<close>, then 1 in the rows where one of the three flag columns is 1.\<close>

definition union_flag :: "frame \<Rightarrow> string \<Rightarrow> string \<Rightarrow> string \<Rightarrow> string \<Rightarrow> frame" where
  "union_flag final_df bz f1 f2 f3 =
     (let df = setitem final_df bz (replicate (nrows final_df) (Num 0))
      in loc_assign df
           (or_mask (or_mask (eq_scalar (get df f1 0) 1) (eq_scalar (get df f2 0) 1))
                    (eq_scalar (get df f3 0) 1))
           bz 1)"

section \<open>id_bluebelts_past.py\<close>

record past_layers =
  past_beaches :: "fragment list"
  past_freshwater_river :: "fragment list"
  past_freshwater_wetlands :: "fragment list"
  past_marine_water :: "fragment list"
  past_pond :: "fragment list"
  past_saltmarsh :: "fragment list"
  past_streams_buffer15 :: "fragment list"
  past_dune :: "fragment list"
  past_tidal_creek :: "fragment list"
  past_intermit :: "fragment list"

definition past_entry :: "fragment list \<Rightarrow> string \<Rightarrow> layer" where
  "past_entry fs ff = \<lparr>gdf = overlay fs ff None, flag_field = ff, flood_type = None\<rparr>"

definition shapefiles_past :: "past_layers \<Rightarrow> layer list" where
  "shapefiles_past p =
     [past_entry (past_beaches p) ''beaches'',
      past_entry (past_freshwater_river p) ''river'',
      past_entry (past_freshwater_wetlands p) ''fresh_wetl'',
      past_entry (past_marine_water p) ''marine'',
      past_entry (past_pond p) ''pond'',
      past_entry (past_saltmarsh p) ''saltmarsh'',
      past_entry (past_streams_buffer15 p) ''streams'',
      past_entry (past_dune p) ''dunes'',
      past_entry (past_tidal_creek p) ''tidal_cree'',
      past_entry (past_intermit p) ''int_stream'']"

text \<open>The body of the loop over the layers: the per-layer table written to
  \<^verbatim>\<open><flag_field>_dissolved.csv\<close> (and read back for the merge).\<close>

definition dissolved_past :: "arith \<Rightarrow> layer \<Rightarrow> error + frame" where
  "dissolved_past fp l =
     bindE (intersection_result l) (\<lambda>df.
       groupby_agg fp df ''unique_id''
         [(new_field_name (flag_field l), AggSum), (flag_field l, AggFirst)])"

definition past :: "arith \<Rightarrow> zone list \<Rightarrow> layer list \<Rightarrow> error + frame" where
  "past fp zs shapefiles =
     bindE (mapE (dissolved_past fp) shapefiles) (\<lambda>dataframes.
     let new_field_names = map (\<lambda>l. new_field_name (flag_field l)) shapefiles in
     bindE (merge_dataframes dataframes) (\<lambda>final_df.
     bindE (getitems final_df new_field_names) (\<lambda>cols.
     let final_df = setitem final_df ''past_sum'' (sum_axis1 fp (nrows final_df) cols) in
     bindE (merge (atomic_polygons zs) final_df ''unique_id'' LeftJoin (''_x'', ''_y'')) (\<lambda>final_df.
     bindE (getitem final_df ''area'') (\<lambda>area.
     let threshold = scale fp (10 / 100) area in
     bindE (getitem final_df ''past_sum'') (\<lambda>past_sum.
       Inr (setitem final_df ''BZ_past'' (astype_int (ge past_sum threshold)))))))))"

section \<open>id_bluebelts_future.py\<close>

definition shapefiles_future :: "fragment list \<Rightarrow> fragment list \<Rightarrow> fragment list \<Rightarrow> layer list" where
  "shapefiles_future future_moderate_2050_flood future_extreme_2080_flood future_500yr =
     [\<lparr>gdf = overlay future_moderate_2050_flood ''mod_2050'' (Some ''mo_20_fldC''),
       flag_field = ''mod_2050'', flood_type = Some ''mo_20_fldC''\<rparr>,
      \<lparr>gdf = overlay future_extreme_2080_flood ''ext_2080'' (Some ''ex_20_fldC''),
       flag_field = ''ext_2080'', flood_type = Some ''ex_20_fldC''\<rparr>,
      \<lparr>gdf = overlay future_500yr ''500yr'' None,
       flag_field = ''500yr'', flood_type = None\<rparr>]"

text \<open>The loop body; \<open>count\<close> is the loop's counter.\<close>

definition dissolved_future :: "arith \<Rightarrow> nat \<Rightarrow> layer \<Rightarrow> error + frame" where
  "dissolved_future fp count l =
     bindE (intersection_result l) (\<lambda>df.
       if count \<le> 1 \<and> flood_type l \<noteq> None then
         groupby_agg fp df ''unique_id''
           [(new_field_name (flag_field l), AggSum), (flag_field l, AggFirst),
            (the (flood_type l), AggFirst)]
       else
         groupby_agg fp df ''unique_id''
           [(new_field_name (flag_field l), AggSum), (flag_field l, AggFirst)])"

fun future_loop :: "arith \<Rightarrow> nat \<Rightarrow> layer list \<Rightarrow> error + frame list" where
  "future_loop fp count [] = Inr []"
| "future_loop fp count (l # ls) =
     bindE (dissolved_future fp count l) (\<lambda>d.
     bindE (future_loop fp (count + 1) ls) (\<lambda>ds. Inr (d # ds)))"

definition future :: "arith \<Rightarrow> zone list \<Rightarrow> layer list \<Rightarrow> error + frame" where
  "future fp zs shapefiles =
     bindE (future_loop fp 0 shapefiles) (\<lambda>dataframes.
     let new_field_names = map (\<lambda>l. new_field_name (flag_field l)) shapefiles in
     bindE (merge_dataframes dataframes) (\<lambda>final_df.
     bindE (merge (atomic_polygons zs) final_df ''unique_id'' LeftJoin (''_x'', ''_y'')) (\<lambda>final_df.
     bindE (area_flags fp new_field_names final_df) (\<lambda>final_df.
       Inr (union_flag final_df ''BZ_future'' ''mod_20Afg'' ''ext_20Afg'' ''500Afg'')))))"

section \<open>id_bluebelts_present.py\<close>

text \<open>Entry 0 of the list is the 311 point layer, whose \<open>gdf\<close> is the layer's attribute
  table as read; the loop over the polygon layers skips it.\<close>

definition shapefiles_present :: "frame \<Rightarrow> fragment list \<Rightarrow> fragment list \<Rightarrow> layer list" where
  "shapefiles_present present_311 present_moderate_flood present_100yr =
     [\<lparr>gdf = present_311, flag_field = ''depcall'', flood_type = None\<rparr>,
      \<lparr>gdf = overlay present_moderate_flood ''mod_cur'' (Some ''mo_cu_fldC''),
       flag_field = ''mod_cur'', flood_type = None\<rparr>,
      \<lparr>gdf = overlay present_100yr ''100yr'' None,
       flag_field = ''100yr'', flood_type = None\<rparr>]"

definition dissolved_present :: "arith \<Rightarrow> nat \<Rightarrow> layer \<Rightarrow> error + frame" where
  "dissolved_present fp idx l =
     bindE (intersection_result l) (\<lambda>df.
       if idx = 1 then
         groupby_agg fp df ''unique_id''
           [(new_field_name (flag_field l), AggSum), (flag_field l, AggFirst),
            (''mo_cu_fldC'', AggFirst)]
       else
         groupby_agg fp df ''unique_id''
           [(new_field_name (flag_field l), AggSum), (flag_field l, AggFirst)])"

fun present_loop :: "arith \<Rightarrow> nat \<Rightarrow> layer list \<Rightarrow> error + frame list" where
  "present_loop fp idx [] = Inr []"
| "present_loop fp idx (l # ls) =
     bindE (dissolved_present fp idx l) (\<lambda>d.
     bindE (present_loop fp (idx + 1) ls) (\<lambda>ds. Inr (d # ds)))"

text \<open>The 311 table: the columns of \<^verbatim>\<open>['unique_id', 'depcall', 'Point_Coun']\<close> that
  the layer has are kept; the aggregation names both \<^verbatim>\<open>depcall\<close> and \<^verbatim>\<open>Point_Coun\<close>
  whatever was kept.\<close>

definition present_311_csv :: "arith \<Rightarrow> frame \<Rightarrow> error + frame" where
  "present_311_csv fp present_311_df =
     (let keep_cols = filter (\<lambda>c. c \<in> set (names present_311_df))
                        [''unique_id'', ''depcall'', ''Point_Coun'']
      in groupby_agg fp (select present_311_df keep_cols) ''unique_id''
           [(''depcall'', AggFirst), (''Point_Coun'', AggFirst)])"

text \<open>\<^verbatim>\<open>final_df['depcaAfg'] = 0\<close>, then 1 where \<^verbatim>\<open>Point_Coun >= 3\<close> if that column
  exists.\<close>

definition point_flag :: "frame \<Rightarrow> error + frame" where
  "point_flag final_df =
     (let df = setitem final_df ''depcaAfg'' (replicate (nrows final_df) (Num 0))
      in if ''Point_Coun'' \<in> set (names df)
         then bindE (getitem df ''Point_Coun'') (\<lambda>pc.
                Inr (loc_assign df (ge_scalar pc 3) ''depcaAfg'' 1))
         else Inr df)"

definition present :: "arith \<Rightarrow> zone list \<Rightarrow> layer list \<Rightarrow> error + frame" where
  "present fp zs shapefiles =
     bindE (present_loop fp 1 (tl shapefiles)) (\<lambda>dissolved.
     let new_field_names = map (\<lambda>l. new_field_name (flag_field l)) (tl shapefiles) in
     bindE (case shapefiles of [] \<Rightarrow> Inl IndexError | l # _ \<Rightarrow> present_311_csv fp (gdf l)) (\<lambda>p311.
     let dataframes = dissolved @ [p311] in
     bindE (merge_dataframes dataframes) (\<lambda>final_df.
     bindE (merge (atomic_polygons zs) final_df ''unique_id'' LeftJoin (''_x'', ''_y'')) (\<lambda>final_df.
     bindE (point_flag final_df) (\<lambda>final_df.
     bindE (area_flags fp new_field_names final_df) (\<lambda>final_df.
       Inr (union_flag final_df ''BZ_present'' ''depcaAfg'' ''mod_cAfg'' ''100Afg'')))))))"

section \<open>What the scripts print\<close>

text \<open>The lines a run of the past script and of the present script writes to standard
  output when it completes, in order: the two progress lines, one line
  \<^verbatim>\<open>f"Exported {csv_filename.name}"\<close> for each layer of the loop, in the past script
  \<^verbatim>\<open>print(new_field_names)\<close>, and the line naming the final CSV file. The path of
  that file comes from the environment and is a parameter here.\<close>

datatype printed = Line string | Names "string list"

definition past_printed :: "string \<Rightarrow> layer list \<Rightarrow> printed list" where
  "past_printed final_output_csv shapefiles =
     [Line ''Past layers loaded'', Line ''Past shapefile list created'']
     @ map (\<lambda>l. Line (''Exported '' @ flag_field l @ ''_dissolved.csv'')) shapefiles
     @ [Names (map (\<lambda>l. new_field_name (flag_field l)) shapefiles),
        Line (''Final CSV saved: '' @ final_output_csv)]"

definition present_printed :: "string \<Rightarrow> layer list \<Rightarrow> printed list" where
  "present_printed final_output_csv shapefiles =
     [Line ''Present layers loaded'', Line ''Present shapefile list created'']
     @ map (\<lambda>l. Line (''Exported '' @ flag_field l @ ''_dissolved.csv'')) (tl shapefiles)
     @ [Line (''Final CSV saved: '' @ final_output_csv)]"

section \<open>Notions of the specification\<close>

text \<open>The intersection fragments of a layer that belong to a zone, and the zone's
  aggregate for the layer: the sum of their areas as the machine adds them, absent when the
  zone has no fragment in the layer. A zone without a \<^verbatim>\<open>unique_id\<close> has no
  aggregate.\<close>

definition fragments_of :: "fragment list \<Rightarrow> cell \<Rightarrow> fragment list" where
  "fragments_of fs u = filter (\<lambda>f. frag_unique_id f = u) fs"

definition aggregate_area :: "arith \<Rightarrow> fragment list \<Rightarrow> cell \<Rightarrow> real option" where
  "aggregate_area fp fs u =
     (if u = NaN \<or> fragments_of fs u = [] then None
      else Some (gsum fp (map frag_geometry (fragments_of fs u))))"

text \<open>The rule for area-based layers: 1 when the aggregate is at least 0.10 times the
  zone's area (the product as the machine computes it), else 0; an absent aggregate gives
  0.\<close>

definition area_rule :: "arith \<Rightarrow> real option \<Rightarrow> real \<Rightarrow> real" where
  "area_rule fp a zone_area =
     (case a of None \<Rightarrow> 0 | Some x \<Rightarrow> if fmul fp (10 / 100) zone_area \<le> x then 1 else 0)"

text \<open>The 311 records that carry a zone's \<^verbatim>\<open>unique_id\<close>, the first
  \<^verbatim>\<open>Point_Coun\<close> value present among them, and the count rule.\<close>

definition zone_points :: "point list \<Rightarrow> cell \<Rightarrow> point list" where
  "zone_points ps u = filter (\<lambda>p. pt_unique_id p = u) ps"

definition recorded_count :: "point list \<Rightarrow> cell \<Rightarrow> cell" where
  "recorded_count ps u =
     (if u = NaN then NaN
      else case filter (\<lambda>c. c \<noteq> NaN) (map pt_Point_Coun (zone_points ps u)) of
             [] \<Rightarrow> NaN | c # _ \<Rightarrow> c)"

definition count_rule :: "cell \<Rightarrow> real" where
  "count_rule c = (case c of NaN \<Rightarrow> 0 | Num x \<Rightarrow> if 3 \<le> x then 1 else 0)"

text \<open>The union of three flags.\<close>

definition union_rule :: "cell \<Rightarrow> cell \<Rightarrow> cell \<Rightarrow> real" where
  "union_rule a b c = (if a = Num 1 \<or> b = Num 1 \<or> c = Num 1 then 1 else 0)"

text \<open>The ten layers of the past script and their flag fields.\<close>

definition past_fragments :: "past_layers \<Rightarrow> fragment list list" where
  "past_fragments p =
     [past_beaches p, past_freshwater_river p, past_freshwater_wetlands p, past_marine_water p,
      past_pond p, past_saltmarsh p, past_streams_buffer15 p, past_dune p, past_tidal_creek p,
      past_intermit p]"

definition past_flag_fields :: "string list" where
  "past_flag_fields =
     [''beaches'', ''river'', ''fresh_wetl'', ''marine'', ''pond'', ''saltmarsh'', ''streams'',
      ''dunes'', ''tidal_cree'', ''int_stream'']"

text \<open>The past script's \<^verbatim>\<open>past_sum\<close> of a zone: the row sum of the zone's aggregates
  that are present, in the order of the ten layers; absent when the zone has an aggregate in
  none of them.\<close>

definition present_values :: "real option list \<Rightarrow> real list" where
  "present_values as = concat (map (\<lambda>a. case a of None \<Rightarrow> [] | Some x \<Rightarrow> [x]) as)"

definition past_sum_value :: "arith \<Rightarrow> past_layers \<Rightarrow> cell \<Rightarrow> real option" where
  "past_sum_value fp p u =
     (let as = map (\<lambda>fs. aggregate_area fp fs u) (past_fragments p)
      in if list_all (\<lambda>a. a = None) as then None
         else Some (rsum fp (present_values as)))"

text \<open>The cells the rules give for a zone: its aggregate for a layer, the layer's flag,
  and the point flag.\<close>

definition agg_cell :: "arith \<Rightarrow> fragment list \<Rightarrow> zone \<Rightarrow> cell" where
  "agg_cell fp fs z = (case aggregate_area fp fs (unique_id z) of None \<Rightarrow> NaN | Some a \<Rightarrow> Num a)"

definition flag_cell :: "arith \<Rightarrow> fragment list \<Rightarrow> zone \<Rightarrow> cell" where
  "flag_cell fp fs z = Num (area_rule fp (aggregate_area fp fs (unique_id z)) (geometry z))"

definition count_cell :: "point list \<Rightarrow> zone \<Rightarrow> cell" where
  "count_cell ps z = Num (count_rule (recorded_count ps (unique_id z)))"

definition past_sum_cell :: "arith \<Rightarrow> past_layers \<Rightarrow> zone \<Rightarrow> cell" where
  "past_sum_cell fp p z = (case past_sum_value fp p (unique_id z) of None \<Rightarrow> NaN | Some a \<Rightarrow> Num a)"

definition past_flag_cell :: "arith \<Rightarrow> past_layers \<Rightarrow> zone \<Rightarrow> cell" where
  "past_flag_cell fp p z = Num (area_rule fp (past_sum_value fp p (unique_id z)) (geometry z))"

text \<open>The records that carry a \<^verbatim>\<open>unique_id\<close>: the fragments of a layer, the 311
  records, and the ten layers of the past script, each without its records that lack one.\<close>

definition usable :: "fragment list \<Rightarrow> fragment list" where
  "usable fs = filter (\<lambda>f. frag_unique_id f \<noteq> NaN) fs"

definition usable_points :: "point list \<Rightarrow> point list" where
  "usable_points ps = filter (\<lambda>p. pt_unique_id p \<noteq> NaN) ps"

definition usable_past :: "past_layers \<Rightarrow> past_layers" where
  "usable_past p =
     \<lparr>past_beaches = usable (past_beaches p),
      past_freshwater_river = usable (past_freshwater_river p),
      past_freshwater_wetlands = usable (past_freshwater_wetlands p),
      past_marine_water = usable (past_marine_water p),
      past_pond = usable (past_pond p),
      past_saltmarsh = usable (past_saltmarsh p),
      past_streams_buffer15 = usable (past_streams_buffer15 p),
      past_dune = usable (past_dune p),
      past_tidal_creek = usable (past_tidal_creek p),
      past_intermit = usable (past_intermit p)\<rparr>"

section \<open>Auxiliary notions for the proofs\<close>

text \<open>The row of a key in a key column without repetitions.\<close>

definition index_of :: "series \<Rightarrow> cell \<Rightarrow> nat option" where
  "index_of ks k = (case positions ks k of [] \<Rightarrow> None | i # _ \<Rightarrow> Some i)"

text \<open>A table keyed by \<^verbatim>\<open>unique_id\<close> whose other columns are given as functions of the
  key.\<close>

definition tab :: "series \<Rightarrow> (string \<times> (cell \<Rightarrow> cell)) list \<Rightarrow> frame" where
  "tab K fs = (''unique_id'', K) # map (\<lambda>c. (fst c, map (snd c) K)) fs"

definition supp_in :: "series \<Rightarrow> (string \<times> (cell \<Rightarrow> cell)) list \<Rightarrow> bool" where
  "supp_in K fs = (\<forall>c \<in> set fs. \<forall>k. k \<notin> set K \<longrightarrow> snd c k = NaN)"

text \<open>The aggregate of a column for a key, missing for a key without a group.\<close>

definition gcol :: "arith \<Rightarrow> series \<Rightarrow> series \<Rightarrow> aggfn \<Rightarrow> cell \<Rightarrow> cell" where
  "gcol fp ks col f k = (if k \<in> set (group_keys ks) then agg fp f (group_cells ks col k) else NaN)"

text \<open>The aggregated columns of a polygon layer's table, as functions of the key.\<close>

definition dcols :: "arith \<Rightarrow> fragment list \<Rightarrow> string \<Rightarrow> string option \<Rightarrow> (string \<times> (cell \<Rightarrow> cell)) list" where
  "dcols fp fs ff ft =
     [(new_field_name ff,
       gcol fp (map frag_unique_id fs) (map (\<lambda>f. Num (frag_geometry f)) fs) AggSum),
      (ff, gcol fp (map frag_unique_id fs) (map frag_flag fs) AggFirst)]
     @ (case ft of None \<Rightarrow> []
        | Some t \<Rightarrow> [(t, gcol fp (map frag_unique_id fs) (map frag_class fs) AggFirst)])"

definition dkeys :: "fragment list \<Rightarrow> series" where
  "dkeys fs = group_keys (map frag_unique_id fs)"

text \<open>The atomic polygons with the columns of a merged table looked up by key.\<close>

definition joined :: "zone list \<Rightarrow> (string \<times> (cell \<Rightarrow> cell)) list \<Rightarrow> frame" where
  "joined zs gs =
     (''unique_id'', map unique_id zs) # (''geometry'', map (\<lambda>z. Num (geometry z)) zs)
     # (''area'', map (\<lambda>z. Num (geometry z)) zs)
     # map (\<lambda>c. (fst c, map (snd c) (map unique_id zs))) gs"

text \<open>The area of a layer aggregated for each atomic polygon, and the layer's flag.\<close>

definition layer_area :: "arith \<Rightarrow> zone list \<Rightarrow> fragment list \<Rightarrow> series" where
  "layer_area fp zs fs =
     map (gcol fp (map frag_unique_id fs) (map (\<lambda>f. Num (frag_geometry f)) fs) AggSum)
         (map unique_id zs)"

definition layer_flag :: "arith \<Rightarrow> zone list \<Rightarrow> fragment list \<Rightarrow> series" where
  "layer_flag fp zs fs =
     astype_int (ge (layer_area fp zs fs) (scale fp (10 / 100) (map (\<lambda>z. Num (geometry z)) zs)))"

text \<open>The union column computed from three flag columns over \<open>n\<close> rows.\<close>

definition bz_union :: "nat \<Rightarrow> series \<Rightarrow> series \<Rightarrow> series \<Rightarrow> series" where
  "bz_union n a b c =
     map2 (\<lambda>m x. if m then Num 1 else x)
       (or_mask (or_mask (eq_scalar a 1) (eq_scalar b 1)) (eq_scalar c 1))
       (replicate n (Num 0))"

definition future_cols ::
  "arith \<Rightarrow> fragment list \<Rightarrow> fragment list \<Rightarrow> fragment list \<Rightarrow> (string \<times> (cell \<Rightarrow> cell)) list" where
  "future_cols fp m e f =
     dcols fp m ''mod_2050'' (Some ''mo_20_fldC'') @ dcols fp e ''ext_2080'' (Some ''ex_20_fldC'')
     @ dcols fp f ''500yr'' None"

text \<open>The aggregated columns of the 311 table, the point count looked up for each atomic
  polygon, and the point flag.\<close>

definition pcols :: "arith \<Rightarrow> point list \<Rightarrow> (string \<times> (cell \<Rightarrow> cell)) list" where
  "pcols fp ps =
     [(''depcall'', gcol fp (map pt_unique_id ps) (map pt_depcall ps) AggFirst),
      (''Point_Coun'', gcol fp (map pt_unique_id ps) (map pt_Point_Coun ps) AggFirst)]"

definition present_cols ::
  "arith \<Rightarrow> fragment list \<Rightarrow> fragment list \<Rightarrow> point list \<Rightarrow> (string \<times> (cell \<Rightarrow> cell)) list" where
  "present_cols fp m h ps =
     dcols fp m ''mod_cur'' (Some ''mo_cu_fldC'') @ dcols fp h ''100yr'' None @ pcols fp ps"

definition point_count :: "arith \<Rightarrow> zone list \<Rightarrow> point list \<Rightarrow> series" where
  "point_count fp zs ps =
     map (gcol fp (map pt_unique_id ps) (map pt_Point_Coun ps) AggFirst) (map unique_id zs)"

definition point_flag_col :: "arith \<Rightarrow> zone list \<Rightarrow> point list \<Rightarrow> series" where
  "point_flag_col fp zs ps =
     map2 (\<lambda>m x. if m then Num 1 else x) (ge_scalar (point_count fp zs ps) 3)
       (replicate (length zs) (Num 0))"

text \<open>The columns of the merged table of the past script, and the row sum of the area
  columns as a function of the key.\<close>

definition past_specs :: "arith \<Rightarrow> past_layers \<Rightarrow> (series \<times> (string \<times> (cell \<Rightarrow> cell)) list) list" where
  "past_specs fp p =
     map2 (\<lambda>fs ff. (dkeys fs, dcols fp fs ff None)) (past_fragments p) past_flag_fields"

definition past_cols :: "arith \<Rightarrow> past_layers \<Rightarrow> (string \<times> (cell \<Rightarrow> cell)) list" where
  "past_cols fp p = concat (map snd (past_specs fp p))"

definition past_total :: "arith \<Rightarrow> past_layers \<Rightarrow> cell \<Rightarrow> cell" where
  "past_total fp p k =
     (if k \<in> \<Union> (set ` dkeys ` set (past_fragments p))
      then Num (rsum fp (nums (map (\<lambda>fs. gcol fp (map frag_unique_id fs)
                                        (map (\<lambda>f. Num (frag_geometry f)) fs) AggSum k)
                                  (past_fragments p))))
      else NaN)"

definition past_area_cols :: "arith \<Rightarrow> past_layers \<Rightarrow> (string \<times> (cell \<Rightarrow> cell)) list" where
  "past_area_cols fp p =
     map2 (\<lambda>fs ff. (new_field_name ff,
                     gcol fp (map frag_unique_id fs) (map (\<lambda>f. Num (frag_geometry f)) fs) AggSum))
       (past_fragments p) past_flag_fields"

definition past_flag :: "arith \<Rightarrow> zone list \<Rightarrow> past_layers \<Rightarrow> series" where
  "past_flag fp zs p =
     astype_int (ge (map (past_total fp p) (map unique_id zs))
                    (scale fp (10 / 100) (map (\<lambda>z. Num (geometry z)) zs)))"

section \<open>Example inputs\<close>

text \<open>Arithmetic without rounding, for the examples: their areas and counts are whole
  numbers, whose sums floating-point arithmetic computes exactly, and every zone has area
  1000, for which the floating-point product \<^verbatim>\<open>0.10 * 1000\<close> is exactly 100.\<close>

definition exact :: arith where
  "exact = \<lparr>gsum = sum_list, rsum = sum_list, fmul = (*)\<rparr>"

definition zone_ex :: "real \<Rightarrow> real \<Rightarrow> zone" where
  "zone_ex i a = \<lparr>unique_id = Num i, geometry = a\<rparr>"

definition frag_ex :: "real \<Rightarrow> real \<Rightarrow> fragment" where
  "frag_ex i a = \<lparr>frag_unique_id = Num i, frag_flag = Num 1, frag_class = Num 2, frag_geometry = a\<rparr>"

definition point_ex :: "real \<Rightarrow> real \<Rightarrow> point" where
  "point_ex i n = \<lparr>pt_unique_id = Num i, pt_depcall = Num 1, pt_Point_Coun = Num n\<rparr>"

text \<open>Four zones of area 1000. Zone 1 meets the layer in fragments of area 60 and 50,
  zone 2 in fragments of area 60 and 40 (exactly a tenth of its area), zone 3 in one fragment
  of area 99, zone 4 in none.\<close>

definition ex_zones :: "zone list" where
  "ex_zones = [zone_ex 1 1000, zone_ex 2 1000, zone_ex 3 1000, zone_ex 4 1000]"

definition ex_frags :: "fragment list" where
  "ex_frags = [frag_ex 1 60, frag_ex 2 60, frag_ex 1 50, frag_ex 2 40, frag_ex 3 99]"

text \<open>311 records: zone 4 has one record with count 3, zone 3 one record with count 2.\<close>

definition ex_points :: "point list" where
  "ex_points = [point_ex 4 3, point_ex 3 2]"

definition no_past :: past_layers where
  "no_past = \<lparr>past_beaches = [], past_freshwater_river = [], past_freshwater_wetlands = [],
     past_marine_water = [], past_pond = [], past_saltmarsh = [], past_streams_buffer15 = [],
     past_dune = [], past_tidal_creek = [], past_intermit = []\<rparr>"

text \<open>One zone of area 1000 that meets the beach layer and the river layer in one fragment
  of area 60 each.\<close>

definition ex_past_two :: past_layers where
  "ex_past_two = no_past\<lparr>past_beaches := [frag_ex 1 60], past_freshwater_river := [frag_ex 1 60]\<rparr>"

text \<open>One zone of area 1000 that meets the beach layer in one fragment of area 150.\<close>

definition ex_past_beach :: past_layers where
  "ex_past_beach = no_past\<lparr>past_beaches := [frag_ex 1 150]\<rparr>"

text \<open>Two zones of area 1000 and four 311 records: three for zone 1, each with
  \<^verbatim>\<open>Point_Coun\<close> 1, and one for zone 2 with \<^verbatim>\<open>Point_Coun\<close> 5.\<close>

definition ex_two_zones :: "zone list" where
  "ex_two_zones = [zone_ex 1 1000, zone_ex 2 1000]"

definition ex_three_points :: "point list" where
  "ex_three_points = [point_ex 1 1, point_ex 1 1, point_ex 1 1, point_ex 2 5]"

text \<open>A fragment of area 500 and a 311 record with \<^verbatim>\<open>Point_Coun\<close> 7 that have no
  \<^verbatim>\<open>unique_id\<close>; the beach layer of the example above with that fragment added.\<close>

definition frag_idless :: fragment where
  "frag_idless = \<lparr>frag_unique_id = NaN, frag_flag = Num 1, frag_class = Num 2, frag_geometry = 500\<rparr>"

definition point_idless :: point where
  "point_idless = \<lparr>pt_unique_id = NaN, pt_depcall = Num 1, pt_Point_Coun = Num 7\<rparr>"

definition ex_past_idless :: past_layers where
  "ex_past_idless = no_past\<lparr>past_beaches := [frag_ex 1 150, frag_idless]\<rparr>"


text \<open>A zone of area 1000 that has no \<^verbatim>\<open>unique_id\<close>.\<close>

definition zone_idless :: zone where
  "zone_idless = \<lparr>unique_id = NaN, geometry = 1000\<rparr>"

section \<open>Facts about the table operations\<close>

lemma filter_eq_upt: "i < n \<Longrightarrow> filter (\<lambda>j. j = i) [0..<n] = [i]"
  by (induction n) (auto simp: less_Suc_eq)

lemma positions_nth: 
  assumes "distinct ks" "i < length ks" 
  shows "positions ks (ks ! i) = [i]"
proof -
  have "filter (\<lambda>j. ks ! j = ks ! i) [0..<length ks] = filter (\<lambda>j. j = i) [0..<length ks]"
    using assms by (intro filter_cong) (auto simp: nth_eq_iff_index_eq)
  then show ?thesis using assms by (simp add: positions_def filter_eq_upt)
qed

lemma positions_notin: "k \<notin> set ks \<Longrightarrow> positions ks k = []"
  by (auto simp: positions_def filter_empty_conv)

lemma index_of_notin: "k \<notin> set ks \<Longrightarrow> index_of ks k = None"
  by (simp add: index_of_def positions_notin)

lemma index_of_in:
  assumes "distinct ks" "k \<in> set ks"
  shows "\<exists>i < length ks. ks ! i = k \<and> positions ks k = [i] \<and> index_of ks k = Some i"
proof -
  from assms(2) obtain i where i: "i < length ks" "ks ! i = k" by (auto simp: in_set_conv_nth)
  with positions_nth[OF assms(1) i(1)] show ?thesis by (auto simp: index_of_def)
qed

lemma pair_up_keyed:
  assumes "distinct lk" "distinct rk" "k \<in> set lk \<union> set rk"
  shows "pair_up (positions lk k) (positions rk k) = [(index_of lk k, index_of rk k)]"
proof (cases "k \<in> set lk")
  case True
  then obtain i where i: "positions lk k = [i]" "index_of lk k = Some i"
    using index_of_in[OF assms(1)] by blast
  show ?thesis
  proof (cases "k \<in> set rk")
    case True
    then obtain j where "positions rk k = [j]" "index_of rk k = Some j"
      using index_of_in[OF assms(2)] by blast
    with i show ?thesis by (simp add: pair_up_def)
  next
    case False
    with i show ?thesis by (simp add: pair_up_def positions_notin index_of_notin)
  qed
next
  case False
  with assms(3) have "k \<in> set rk" by simp
  then obtain j where "positions rk k = [j]" "index_of rk k = Some j"
    using index_of_in[OF assms(2)] by blast
  with False show ?thesis by (simp add: pair_up_def positions_notin index_of_notin)
qed

lemma concat_map_single: "(\<And>x. x \<in> set xs \<Longrightarrow> f x = [g x]) \<Longrightarrow> concat (map f xs) = map g xs"
  by (induction xs) auto

lemma join_index_outer:
  assumes "distinct lk" "distinct rk"
  shows "join_index OuterJoin lk rk =
         map (\<lambda>k. (index_of lk k, index_of rk k)) (sort_key cell_rank (remdups (lk @ rk)))"
  unfolding join_index.simps
  by (rule concat_map_single) (simp add: pair_up_keyed[OF assms])

lemma join_index_left:
  assumes "distinct rk"
  shows "join_index LeftJoin lk rk = map (\<lambda>i. (Some i, index_of rk (lk ! i))) [0..<length lk]"
  unfolding join_index.simps
proof (rule concat_map_single)
  fix i
  show "pair_up [i] (positions rk (lk ! i)) = [(Some i, index_of rk (lk ! i))]"
  proof (cases "lk ! i \<in> set rk")
    case True
    then obtain j where "positions rk (lk ! i) = [j]" "index_of rk (lk ! i) = Some j"
      using index_of_in[OF assms] by blast
    then show ?thesis by (simp add: pair_up_def)
  next
    case False
    then show ?thesis by (simp add: pair_up_def positions_notin index_of_notin)
  qed
qed

lemma take_rows_index:
  assumes "distinct ks"
  shows "take_rows (map g ks) (map (\<lambda>k. index_of ks k) xs)
         = map (\<lambda>k. if k \<in> set ks then g k else NaN) xs"
proof -
  have "(case index_of ks k of None \<Rightarrow> NaN | Some i \<Rightarrow> map g ks ! i) = (if k \<in> set ks then g k else NaN)" for k
  proof (cases "k \<in> set ks")
    case True
    then obtain i where "i < length ks" "ks ! i = k" "index_of ks k = Some i"
      using index_of_in[OF assms] by blast
    with True show ?thesis by simp
  next
    case False
    then show ?thesis by (simp add: index_of_notin)
  qed
  then show ?thesis by (simp add: take_rows_def o_def)
qed

lemma join_keys_outer:
  assumes "distinct lk" "distinct rk" "set xs \<subseteq> set lk \<union> set rk"
  shows "join_keys lk rk (map (\<lambda>k. (index_of lk k, index_of rk k)) xs) = xs"
proof -
  have "(case fst (index_of lk k, index_of rk k) of Some i \<Rightarrow> lk ! i
          | None \<Rightarrow> (case snd (index_of lk k, index_of rk k) of Some j \<Rightarrow> rk ! j | None \<Rightarrow> NaN)) = k"
    if "k \<in> set lk \<union> set rk" for k
  proof (cases "k \<in> set lk")
    case True
    then obtain i where "lk ! i = k" "index_of lk k = Some i"
      using index_of_in[OF assms(1)] by blast
    then show ?thesis by simp
  next
    case False
    with that have "k \<in> set rk" by simp
    then obtain j where "rk ! j = k" "index_of rk k = Some j"
      using index_of_in[OF assms(2)] by blast
    with False show ?thesis by (simp add: index_of_notin)
  qed
  then show ?thesis
    using assms(3) unfolding join_keys_def map_map o_def by (intro map_idI) auto
qed

lemma suffix_dups_same: "suffix_dups xs xs = []"
  by (auto simp: suffix_dups_def filter_empty_conv)

lemma getitem_tab_key:
  "''unique_id'' \<notin> fst ` set fs \<Longrightarrow> getitem (tab K fs) ''unique_id'' = Inr K"
proof -
  assume a: "''unique_id'' \<notin> fst ` set fs"
  have "filter (\<lambda>c. fst c = ''unique_id'') (map (\<lambda>c. (fst c, map (snd c) K)) fs) = []"
    using a by (force simp: filter_empty_conv)
  then show ?thesis by (simp add: getitem_def tab_def)
qed

lemma drop_key_tab:
  "''unique_id'' \<notin> fst ` set fs \<Longrightarrow>
   filter (\<lambda>c. fst c \<noteq> ''unique_id'') (tab K fs) = map (\<lambda>c. (fst c, map (snd c) K)) fs"
proof -
  assume a: "''unique_id'' \<notin> fst ` set fs"
  have "filter (\<lambda>c. fst c \<noteq> ''unique_id'') (map (\<lambda>c. (fst c, map (snd c) K)) fs)
        = map (\<lambda>c. (fst c, map (snd c) K)) fs"
    using a by (force simp: filter_id_conv)
  then show ?thesis by (simp add: tab_def)
qed

lemma supp_in_restrict:
  "supp_in K fs \<Longrightarrow> c \<in> set fs \<Longrightarrow> (\<lambda>k. if k \<in> set K then snd c k else NaN) = snd c"
  by (auto simp: supp_in_def fun_eq_iff)

lemma merge_outer_tab:
  assumes dl: "distinct lk" and dr: "distinct rk"
    and sl: "supp_in lk fs" and sr: "supp_in rk gs"
    and kl: "''unique_id'' \<notin> fst ` set fs" and kr: "''unique_id'' \<notin> fst ` set gs"
    and disj: "fst ` set fs \<inter> fst ` set gs = {}"
  shows "merge (tab lk fs) (tab rk gs) ''unique_id'' OuterJoin sfx
         = Inr (tab (sort_key cell_rank (remdups (lk @ rk))) (fs @ gs))"
proof -
  let ?mk = "sort_key cell_rank (remdups (lk @ rk))"
  let ?idx = "map (\<lambda>k. (index_of lk k, index_of rk k)) ?mk"
  have nl: "names (tab lk fs) = ''unique_id'' # map fst fs"
    by (simp add: names_def tab_def o_def)
  have nr: "names (map (\<lambda>c. (fst c, map (snd c) rk)) gs) = map fst gs"
    by (simp add: names_def o_def)
  have tr: "filter (\<lambda>n. n \<in> set (map fst gs)) (''unique_id'' # map fst fs) = []"
    using kr disj by (auto simp: filter_empty_conv)
  have keys: "join_keys lk rk ?idx = ?mk"
    by (rule join_keys_outer[OF dl dr]) simp
  have lcols: "take_rows (map (snd c) lk) (map fst ?idx) = map (snd c) ?mk" if "c \<in> set fs" for c
    using take_rows_index[OF dl, of "snd c" ?mk] supp_in_restrict[OF sl that]
    by (simp add: o_def)
  have rcols: "take_rows (map (snd c) rk) (map snd ?idx) = map (snd c) ?mk" if "c \<in> set gs" for c
    using take_rows_index[OF dr, of "snd c" ?mk] supp_in_restrict[OF sr that]
    by (simp add: o_def)
  have L: "map (\<lambda>c. (fst c, if fst c = ''unique_id'' then ?mk else take_rows (snd c) (map fst ?idx))) (tab lk fs)
           = tab ?mk fs"
  proof -
    have "fst c \<noteq> ''unique_id''" if "c \<in> set fs" for c
      using kl that by force
    then show ?thesis using lcols by (simp add: tab_def)
  qed
  have R: "map (\<lambda>c. (fst c, take_rows (snd c) (map snd ?idx))) (map (\<lambda>c. (fst c, map (snd c) rk)) gs)
           = map (\<lambda>c. (fst c, map (snd c) ?mk)) gs"
    using rcols by auto
  have "merge (tab lk fs) (tab rk gs) ''unique_id'' OuterJoin sfx
        = Inr (tab ?mk fs @ map (\<lambda>c. (fst c, map (snd c) ?mk)) gs)"
    unfolding merge_def getitem_tab_key[OF kl] getitem_tab_key[OF kr] bindE_def Let_def
      drop_key_tab[OF kr] nl nr tr join_index_outer[OF dl dr] keys
    by (simp only: sum.case list.set empty_iff if_False list.map_ident suffix_dups_same
        simp_thms join_index_outer[OF dl dr] keys L R)
  then show ?thesis by (simp add: tab_def)
qed

lemma map_nth_fun: "map (\<lambda>i. f (xs ! i)) [0..<length xs] = map f xs"
  by (rule nth_equalityI) auto

lemma take_rows_all: "length s = n \<Longrightarrow> take_rows s (map Some [0..<n]) = s"
  by (auto simp: take_rows_def o_def intro: nth_equalityI)

lemma merge_left_tab:
  assumes dr: "distinct rk" and sr: "supp_in rk gs"
    and kr: "''unique_id'' \<notin> fst ` set gs" and kz: "''unique_id'' \<notin> fst ` set zc"
    and zl: "\<And>c. c \<in> set zc \<Longrightarrow> length (snd c) = length zk"
    and disj: "fst ` set zc \<inter> fst ` set gs = {}"
  shows "merge ((''unique_id'', zk) # zc) (tab rk gs) ''unique_id'' LeftJoin sfx
         = Inr ((''unique_id'', zk) # zc @ map (\<lambda>c. (fst c, map (snd c) zk)) gs)"
proof -
  let ?idx = "map (\<lambda>i. (Some i, index_of rk (zk ! i))) [0..<length zk]"
  have nz: "fst c \<noteq> ''unique_id''" if "c \<in> set zc" for c
    using kz that by force
  have gl: "getitem ((''unique_id'', zk) # zc) ''unique_id'' = Inr zk"
  proof -
    have "filter (\<lambda>c. fst c = ''unique_id'') zc = []"
      using nz by (auto simp: filter_empty_conv)
    then show ?thesis by (simp add: getitem_def)
  qed
  have nl: "names ((''unique_id'', zk) # zc) = ''unique_id'' # map fst zc"
    by (simp add: names_def)
  have nr: "names (map (\<lambda>c. (fst c, map (snd c) rk)) gs) = map fst gs"
    by (simp add: names_def o_def)
  have tr: "filter (\<lambda>n. n \<in> set (map fst gs)) (''unique_id'' # map fst zc) = []"
    using kr disj by (auto simp: filter_empty_conv)
  have fi: "map fst ?idx = map Some [0..<length zk]"
    by (simp add: o_def)
  have si: "map snd ?idx = map (index_of rk) zk"
    using map_nth_fun[of "index_of rk" zk] by (simp add: o_def)
  have keys: "join_keys zk rk ?idx = zk"
    by (auto simp: join_keys_def o_def intro: nth_equalityI)
  have rcols: "take_rows (map (snd c) rk) (map (index_of rk) zk) = map (snd c) zk"
    if "c \<in> set gs" for c
    using take_rows_index[OF dr, of "snd c" zk] supp_in_restrict[OF sr that] by simp
  have L: "map (\<lambda>c. (fst c, if fst c = ''unique_id'' then zk
                             else take_rows (snd c) (map Some [0..<length zk])))
             ((''unique_id'', zk) # zc) = (''unique_id'', zk) # zc"
    using nz zl by (auto simp: take_rows_all intro!: map_idI)
  have R: "map (\<lambda>c. (fst c, take_rows (snd c) (map (index_of rk) zk)))
             (map (\<lambda>c. (fst c, map (snd c) rk)) gs)
           = map (\<lambda>c. (fst c, map (snd c) zk)) gs"
    using rcols by auto
  have "merge ((''unique_id'', zk) # zc) (tab rk gs) ''unique_id'' LeftJoin sfx
        = Inr (((''unique_id'', zk) # zc) @ map (\<lambda>c. (fst c, map (snd c) zk)) gs)"
    unfolding merge_def gl getitem_tab_key[OF kr] bindE_def Let_def drop_key_tab[OF kr] nl nr tr
    by (simp only: sum.case list.set empty_iff if_False list.map_ident suffix_dups_same
        simp_thms join_index_left[OF dr] fi si keys L R)
  then show ?thesis by simp
qed

lemma supp_in_mono: "supp_in K fs \<Longrightarrow> set K \<subseteq> set K' \<Longrightarrow> supp_in K' fs"
  by (auto simp: supp_in_def)

lemma supp_in_append: "supp_in K (fs @ gs) \<longleftrightarrow> supp_in K fs \<and> supp_in K gs"
  by (auto simp: supp_in_def)

lemma merge_loop_tab:
  assumes "distinct K" "supp_in K fs"
    and "\<And>p. p \<in> set specs \<Longrightarrow> distinct (fst p) \<and> supp_in (fst p) (snd p)"
    and "distinct (map fst (fs @ concat (map snd specs)))"
    and "''unique_id'' \<notin> fst ` set (fs @ concat (map snd specs))"
  shows "\<exists>MK. merge_loop (tab K fs) cnt (map (\<lambda>p. tab (fst p) (snd p)) specs)
               = Inr (tab MK (fs @ concat (map snd specs)))
             \<and> distinct MK \<and> set MK = set K \<union> \<Union> (set ` fst ` set specs)
             \<and> supp_in MK (fs @ concat (map snd specs))"
  using assms
proof (induction specs arbitrary: K fs cnt)
  case Nil
  then show ?case by (intro exI[of _ K]) simp
next
  case (Cons p specs)
  let ?mk = "sort_key cell_rank (remdups (K @ fst p))"
  have p: "distinct (fst p)" "supp_in (fst p) (snd p)"
    using Cons.prems(3)[of p] by simp_all
  have m: "merge (tab K fs) (tab (fst p) (snd p)) ''unique_id'' OuterJoin sfx
           = Inr (tab ?mk (fs @ snd p))" for sfx
    using Cons.prems(1,2,4,5) p by (intro merge_outer_tab) auto
  have "\<exists>MK. merge_loop (tab ?mk (fs @ snd p)) (cnt + 1) (map (\<lambda>p. tab (fst p) (snd p)) specs)
               = Inr (tab MK ((fs @ snd p) @ concat (map snd specs)))
             \<and> distinct MK \<and> set MK = set ?mk \<union> \<Union> (set ` fst ` set specs)
             \<and> supp_in MK ((fs @ snd p) @ concat (map snd specs))"
  proof (rule Cons.IH)
    show "distinct ?mk" by simp
    show "supp_in ?mk (fs @ snd p)"
      using Cons.prems(2) p(2) by (auto simp: supp_in_def)
    show "distinct (fst q) \<and> supp_in (fst q) (snd q)" if "q \<in> set specs" for q
      using Cons.prems(3)[of q] that by simp
    show "distinct (map fst ((fs @ snd p) @ concat (map snd specs)))"
      using Cons.prems(4) by simp
    show "''unique_id'' \<notin> fst ` set ((fs @ snd p) @ concat (map snd specs))"
      using Cons.prems(5) by simp
  qed
  then show ?case by (auto simp: m bindE_def Let_def)
qed

lemma groupby_agg_tab:
  assumes "getitem df ''unique_id'' = Inr ks" "getitems df (map fst spec) = Inr cols"
  shows "groupby_agg fp df ''unique_id'' spec
         = Inr (tab (group_keys ks) (map2 (\<lambda>nf col. (fst nf, gcol fp ks col (snd nf))) spec cols))"
proof -
  have "map (\<lambda>c. (fst c, map (snd c) (group_keys ks)))
          (map2 (\<lambda>nf col. (fst nf, gcol fp ks col (snd nf))) spec cols)
        = map2 (\<lambda>nf col. (fst nf, map (\<lambda>k. agg fp (snd nf) (group_cells ks col k)) (group_keys ks)))
            spec cols"
    by (auto simp: gcol_def)
  then show ?thesis
    by (simp add: groupby_agg_def assms bindE_def tab_def)
qed

lemma distinct_group_keys: "distinct (group_keys ks)"
  by (simp add: group_keys_def)

lemma set_group_keys: "set (group_keys ks) = set ks - {NaN}"
  by (auto simp: group_keys_def)

lemma supp_in_gcol: "supp_in (group_keys ks) (map2 (\<lambda>nf col. (fst nf, gcol fp ks col (snd nf))) spec cols)"
  by (auto simp: supp_in_def gcol_def dest!: set_zip_leftD set_zip_rightD in_set_zipE)

lemma dissolve_overlay:
  assumes "ff \<noteq> ''unique_id''" "ff \<noteq> ''geometry''"
    and "new_field_name ff \<noteq> ''unique_id''" "new_field_name ff \<noteq> ''geometry''"
    and "new_field_name ff \<noteq> ff"
  shows "bindE (intersection_result \<lparr>gdf = overlay fs ff None, flag_field = ff, flood_type = x\<rparr>)
           (\<lambda>df. groupby_agg fp df ''unique_id'' [(new_field_name ff, AggSum), (ff, AggFirst)])
         = Inr (tab (dkeys fs) (dcols fp fs ff None))"
proof -
  let ?df = "setitem (overlay fs ff None) (new_field_name ff)
               (area_of (map (\<lambda>f. Num (frag_geometry f)) fs))"
  have i: "intersection_result \<lparr>gdf = overlay fs ff None, flag_field = ff, flood_type = x\<rparr> = Inr ?df"
    using assms by (simp add: intersection_result_def overlay_def getitem_def bindE_def)
  have k: "getitem ?df ''unique_id'' = Inr (map frag_unique_id fs)"
    using assms by (simp add: overlay_def setitem_def names_def getitem_def)
  have c: "getitems ?df (map fst [(new_field_name ff, AggSum), (ff, AggFirst)])
           = Inr [map (\<lambda>f. Num (frag_geometry f)) fs, map frag_flag fs]"
    using assms by (simp add: overlay_def setitem_def names_def getitem_def bindE_def area_of_def)
  show ?thesis
    unfolding i bindE_def sum.case groupby_agg_tab[OF k c]
    by (simp add: dcols_def dkeys_def)
qed

lemma dissolve_overlay_class:
  assumes "ff \<noteq> ''unique_id''" "ff \<noteq> ''geometry''"
    and "new_field_name ff \<noteq> ''unique_id''" "new_field_name ff \<noteq> ''geometry''"
    and "new_field_name ff \<noteq> ff"
    and "t \<noteq> ''unique_id''" "t \<noteq> ''geometry''" "t \<noteq> ff" "t \<noteq> new_field_name ff"
  shows "bindE (intersection_result \<lparr>gdf = overlay fs ff (Some t), flag_field = ff, flood_type = x\<rparr>)
           (\<lambda>df. groupby_agg fp df ''unique_id'' [(new_field_name ff, AggSum), (ff, AggFirst), (t, AggFirst)])
         = Inr (tab (dkeys fs) (dcols fp fs ff (Some t)))"
proof -
  let ?df = "setitem (overlay fs ff (Some t)) (new_field_name ff)
               (area_of (map (\<lambda>f. Num (frag_geometry f)) fs))"
  have i: "intersection_result \<lparr>gdf = overlay fs ff (Some t), flag_field = ff, flood_type = x\<rparr> = Inr ?df"
    using assms by (simp add: intersection_result_def overlay_def getitem_def bindE_def)
  have k: "getitem ?df ''unique_id'' = Inr (map frag_unique_id fs)"
    using assms by (simp add: overlay_def setitem_def names_def getitem_def)
  have c: "getitems ?df (map fst [(new_field_name ff, AggSum), (ff, AggFirst), (t, AggFirst)])
           = Inr [map (\<lambda>f. Num (frag_geometry f)) fs, map frag_flag fs, map frag_class fs]"
    using assms by (simp add: overlay_def setitem_def names_def getitem_def bindE_def area_of_def)
  show ?thesis
    unfolding i bindE_def sum.case groupby_agg_tab[OF k c]
    by (simp add: dcols_def dkeys_def)
qed

lemma nfn [simp]:
  "new_field_name ''mod_cur'' = ''mod_cA''" "new_field_name ''100yr'' = ''100A''"
  "new_field_name ''mod_2050'' = ''mod_20A''" "new_field_name ''ext_2080'' = ''ext_20A''"
  "new_field_name ''500yr'' = ''500A''"
  "new_field_name ''beaches'' = ''beachA''" "new_field_name ''river'' = ''rivA''"
  "new_field_name ''fresh_wetl'' = ''fresh_weA''" "new_field_name ''marine'' = ''mariA''"
  "new_field_name ''pond'' = ''poA''" "new_field_name ''saltmarsh'' = ''saltmarA''"
  "new_field_name ''streams'' = ''streaA''" "new_field_name ''dunes'' = ''dunA''"
  "new_field_name ''tidal_cree'' = ''tidal_crA''" "new_field_name ''int_stream'' = ''int_streA''"
  by (simp_all add: new_field_name_def)

lemma present_loop_eq:
  "present_loop fp 1 (tl (shapefiles_present p311 m h))
   = Inr [tab (dkeys m) (dcols fp m ''mod_cur'' (Some ''mo_cu_fldC'')),
          tab (dkeys h) (dcols fp h ''100yr'' None)]"
proof -
  have a: "dissolved_present fp (Suc 0) \<lparr>gdf = overlay m ''mod_cur'' (Some ''mo_cu_fldC''),
             flag_field = ''mod_cur'', flood_type = None\<rparr>
           = Inr (tab (dkeys m) (dcols fp m ''mod_cur'' (Some ''mo_cu_fldC'')))"
    using dissolve_overlay_class[of "''mod_cur''" "''mo_cu_fldC''" m None]
    by (simp add: dissolved_present_def)
  have b: "dissolved_present fp (Suc (Suc 0)) \<lparr>gdf = overlay h ''100yr'' None,
             flag_field = ''100yr'', flood_type = None\<rparr>
           = Inr (tab (dkeys h) (dcols fp h ''100yr'' None))"
    using dissolve_overlay[of "''100yr''" h None]
    by (simp add: dissolved_present_def)
  show ?thesis
    by (simp add: shapefiles_present_def a b bindE_def)
qed

lemma names_select: "set (names (select df cols)) \<subseteq> set (names df)"
  by (auto simp: names_def select_def)

lemma getitem_absent: "n \<notin> set (names df) \<Longrightarrow> getitem df n = Inl (KeyError n)"
proof -
  assume "n \<notin> set (names df)"
  then have "filter (\<lambda>c. fst c = n) df = []"
    by (force simp: names_def filter_empty_conv)
  then show ?thesis by (simp add: getitem_def)
qed

lemma bindE_Inr: "bindE (Inr v) f = f v"
  by (simp add: bindE_def)

lemma bindE_Inl: "bindE (Inl e) f = Inl e"
  by (simp add: bindE_def)

lemma bindE_weak_cong: "r = r' \<Longrightarrow> bindE r f = bindE r' f"
  by simp

lemma distinct_dkeys: "distinct (dkeys fs)"
  by (simp add: dkeys_def distinct_group_keys)

lemma supp_in_dcols: "supp_in (dkeys fs) (dcols fp fs ff ft)"
  by (cases ft) (auto simp: supp_in_def dcols_def dkeys_def gcol_def)

lemma merge_dataframes_tab:
  assumes "\<And>p. p \<in> set (q # specs) \<Longrightarrow> distinct (fst p) \<and> supp_in (fst p) (snd p)"
    and "distinct (map fst (concat (map snd (q # specs))))"
    and "''unique_id'' \<notin> fst ` set (concat (map snd (q # specs)))"
  shows "\<exists>MK. merge_dataframes (map (\<lambda>p. tab (fst p) (snd p)) (q # specs))
               = Inr (tab MK (concat (map snd (q # specs))))
             \<and> distinct MK \<and> set MK = \<Union> (set ` fst ` set (q # specs))
             \<and> supp_in MK (concat (map snd (q # specs)))"
proof -
  have "\<exists>MK. merge_loop (tab (fst q) (snd q)) 0 (map (\<lambda>p. tab (fst p) (snd p)) specs)
               = Inr (tab MK (snd q @ concat (map snd specs)))
             \<and> distinct MK \<and> set MK = set (fst q) \<union> \<Union> (set ` fst ` set specs)
             \<and> supp_in MK (snd q @ concat (map snd specs))"
  proof (rule merge_loop_tab)
    show "distinct (fst q)" "supp_in (fst q) (snd q)" using assms(1)[of q] by simp_all
    show "distinct (fst p) \<and> supp_in (fst p) (snd p)" if "p \<in> set specs" for p
      using assms(1)[of p] that by simp
    show "distinct (map fst (snd q @ concat (map snd specs)))" using assms(2) by simp
    show "''unique_id'' \<notin> fst ` set (snd q @ concat (map snd specs))" using assms(3) by simp
  qed
  then show ?thesis by (simp add: merge_dataframes_def)
qed

lemma atomic_left_merge:
  assumes "distinct MK" "supp_in MK gs" "''unique_id'' \<notin> fst ` set gs"
    and "''geometry'' \<notin> fst ` set gs" "''area'' \<notin> fst ` set gs"
  shows "merge (atomic_polygons zs) (tab MK gs) ''unique_id'' LeftJoin sfx = Inr (joined zs gs)"
proof -
  have a: "atomic_polygons zs = (''unique_id'', map unique_id zs) #
             [(''geometry'', map (\<lambda>z. Num (geometry z)) zs), (''area'', map (\<lambda>z. Num (geometry z)) zs)]"
    by (simp add: atomic_polygons_def setitem_def names_def area_of_def)
  show ?thesis
    unfolding a
    by (subst merge_left_tab) (use assms in \<open>auto simp: joined_def\<close>)
qed

lemma future_loop_eq:
  "future_loop fp 0 (shapefiles_future m e f)
   = Inr [tab (dkeys m) (dcols fp m ''mod_2050'' (Some ''mo_20_fldC'')),
          tab (dkeys e) (dcols fp e ''ext_2080'' (Some ''ex_20_fldC'')),
          tab (dkeys f) (dcols fp f ''500yr'' None)]"
proof -
  have a: "dissolved_future fp 0 \<lparr>gdf = overlay m ''mod_2050'' (Some ''mo_20_fldC''),
             flag_field = ''mod_2050'', flood_type = Some ''mo_20_fldC''\<rparr>
           = Inr (tab (dkeys m) (dcols fp m ''mod_2050'' (Some ''mo_20_fldC'')))"
    using dissolve_overlay_class[of "''mod_2050''" "''mo_20_fldC''" m "Some ''mo_20_fldC''"]
    by (simp add: dissolved_future_def)
  have b: "dissolved_future fp (Suc 0) \<lparr>gdf = overlay e ''ext_2080'' (Some ''ex_20_fldC''),
             flag_field = ''ext_2080'', flood_type = Some ''ex_20_fldC''\<rparr>
           = Inr (tab (dkeys e) (dcols fp e ''ext_2080'' (Some ''ex_20_fldC'')))"
    using dissolve_overlay_class[of "''ext_2080''" "''ex_20_fldC''" e "Some ''ex_20_fldC''"]
    by (simp add: dissolved_future_def)
  have c: "dissolved_future fp (Suc (Suc 0)) \<lparr>gdf = overlay f ''500yr'' None,
             flag_field = ''500yr'', flood_type = None\<rparr>
           = Inr (tab (dkeys f) (dcols fp f ''500yr'' None))"
    using dissolve_overlay[of "''500yr''" f None]
    by (simp add: dissolved_future_def)
  show ?thesis
    by (simp add: shapefiles_future_def a b c bindE_def)
qed

lemma future_joined:
  "bindE (future_loop fp 0 (shapefiles_future m e f)) (\<lambda>dataframes.
     bindE (merge_dataframes dataframes) (\<lambda>final_df.
       merge (atomic_polygons zs) final_df ''unique_id'' LeftJoin (''_x'', ''_y'')))
   = Inr (joined zs (future_cols fp m e f))"
proof -
  let ?specs = "[(dkeys m, dcols fp m ''mod_2050'' (Some ''mo_20_fldC'')),
                 (dkeys e, dcols fp e ''ext_2080'' (Some ''ex_20_fldC'')),
                 (dkeys f, dcols fp f ''500yr'' None)]"
  have "\<exists>MK. merge_dataframes (map (\<lambda>p. tab (fst p) (snd p)) ?specs)
               = Inr (tab MK (concat (map snd ?specs)))
             \<and> distinct MK \<and> set MK = \<Union> (set ` fst ` set ?specs)
             \<and> supp_in MK (concat (map snd ?specs))"
  proof (rule merge_dataframes_tab)
    show "distinct (fst p) \<and> supp_in (fst p) (snd p)" if "p \<in> set ?specs" for p
      using that by (auto simp: distinct_dkeys supp_in_dcols)
    show "distinct (map fst (concat (map snd ?specs)))" by (simp add: dcols_def)
    show "''unique_id'' \<notin> fst ` set (concat (map snd ?specs))" by (simp add: dcols_def)
  qed
  then obtain MK where MK: "merge_dataframes (map (\<lambda>p. tab (fst p) (snd p)) ?specs)
               = Inr (tab MK (future_cols fp m e f))" "distinct MK" "supp_in MK (future_cols fp m e f)"
    by (auto simp: future_cols_def)
  have l: "merge (atomic_polygons zs) (tab MK (future_cols fp m e f)) ''unique_id'' LeftJoin (''_x'', ''_y'')
           = Inr (joined zs (future_cols fp m e f))"
    by (rule atomic_left_merge[OF MK(2,3)]) (auto simp: future_cols_def dcols_def)
  show ?thesis
    using MK(1) l by (simp add: future_loop_eq bindE_def)
qed

lemma future_eq:
  "future fp zs (shapefiles_future m e f)
   = Inr (joined zs (future_cols fp m e f)
          @ [(''mod_20Afg'', layer_flag fp zs m), (''ext_20Afg'', layer_flag fp zs e),
             (''500Afg'', layer_flag fp zs f),
             (''BZ_future'', bz_union (length zs) (layer_flag fp zs m) (layer_flag fp zs e) (layer_flag fp zs f))])"
proof -
  have n: "map (\<lambda>l. new_field_name (flag_field l)) (shapefiles_future m e f)
           = [''mod_20A'', ''ext_20A'', ''500A'']"
    by (simp add: shapefiles_future_def)
  have af: "area_flags fp [''mod_20A'', ''ext_20A'', ''500A''] (joined zs (future_cols fp m e f))
            = Inr (joined zs (future_cols fp m e f)
                   @ [(''mod_20Afg'', layer_flag fp zs m), (''ext_20Afg'', layer_flag fp zs e),
                      (''500Afg'', layer_flag fp zs f)])"
    by (simp add: joined_def future_cols_def dcols_def getitem_def setitem_def names_def
        bindE_Inr bindE_Inl layer_flag_def layer_area_def cong: bindE_weak_cong)
  have uf: "union_flag (joined zs (future_cols fp m e f)
                   @ [(''mod_20Afg'', a), (''ext_20Afg'', b), (''500Afg'', c)])
              ''BZ_future'' ''mod_20Afg'' ''ext_20Afg'' ''500Afg''
            = joined zs (future_cols fp m e f)
                   @ [(''mod_20Afg'', a), (''ext_20Afg'', b), (''500Afg'', c),
                      (''BZ_future'', bz_union (length zs) a b c)]" for a b c
    by (simp add: joined_def future_cols_def dcols_def union_flag_def setitem_def names_def
        loc_assign_def get_def nrows_def bz_union_def)
  have "future fp zs (shapefiles_future m e f)
        = bindE (bindE (future_loop fp 0 (shapefiles_future m e f)) (\<lambda>dataframes.
            bindE (merge_dataframes dataframes) (\<lambda>final_df.
              merge (atomic_polygons zs) final_df ''unique_id'' LeftJoin (''_x'', ''_y''))))
          (\<lambda>final_df. bindE (area_flags fp [''mod_20A'', ''ext_20A'', ''500A''] final_df) (\<lambda>final_df.
             Inr (union_flag final_df ''BZ_future'' ''mod_20Afg'' ''ext_20Afg'' ''500Afg'')))"
    unfolding future_def n Let_def
    by (simp add: bindE_def split: sum.splits)
  then show ?thesis
    by (simp only: future_joined bindE_Inr af uf)
qed

lemma present_311_csv_eq:
  "present_311_csv fp (points_table ps) = Inr (tab (group_keys (map pt_unique_id ps)) (pcols fp ps))"
proof -
  let ?sub = "[(''unique_id'', map pt_unique_id ps), (''depcall'', map pt_depcall ps),
               (''Point_Coun'', map pt_Point_Coun ps)]"
  have s: "select (points_table ps) (filter (\<lambda>c. c \<in> set (names (points_table ps)))
             [''unique_id'', ''depcall'', ''Point_Coun'']) = ?sub"
    by (simp add: points_table_def names_def select_def)
  have k: "getitem ?sub ''unique_id'' = Inr (map pt_unique_id ps)"
    by (simp add: getitem_def)
  have c: "getitems ?sub (map fst [(''depcall'', AggFirst), (''Point_Coun'', AggFirst)])
           = Inr [map pt_depcall ps, map pt_Point_Coun ps]"
    by (simp add: getitem_def bindE_Inr)
  show ?thesis
    unfolding present_311_csv_def Let_def s groupby_agg_tab[OF k c]
    by (simp add: pcols_def)
qed

lemma supp_in_pcols: "supp_in (group_keys (map pt_unique_id ps)) (pcols fp ps)"
  by (auto simp: supp_in_def pcols_def gcol_def)

lemma present_joined:
  "bindE (merge_dataframes
            [tab (dkeys m) (dcols fp m ''mod_cur'' (Some ''mo_cu_fldC'')),
             tab (dkeys h) (dcols fp h ''100yr'' None),
             tab (group_keys (map pt_unique_id ps)) (pcols fp ps)])
     (\<lambda>final_df. bindE (merge (atomic_polygons zs) final_df ''unique_id'' LeftJoin (''_x'', ''_y'')) G)
   = G (joined zs (present_cols fp m h ps))"
proof -
  let ?specs = "[(dkeys m, dcols fp m ''mod_cur'' (Some ''mo_cu_fldC'')),
                 (dkeys h, dcols fp h ''100yr'' None),
                 (group_keys (map pt_unique_id ps), pcols fp ps)]"
  have "\<exists>MK. merge_dataframes (map (\<lambda>p. tab (fst p) (snd p)) ?specs)
               = Inr (tab MK (concat (map snd ?specs)))
             \<and> distinct MK \<and> set MK = \<Union> (set ` fst ` set ?specs)
             \<and> supp_in MK (concat (map snd ?specs))"
  proof (rule merge_dataframes_tab)
    show "distinct (fst p) \<and> supp_in (fst p) (snd p)" if "p \<in> set ?specs" for p
      using that by (auto simp: distinct_dkeys supp_in_dcols supp_in_pcols distinct_group_keys)
    show "distinct (map fst (concat (map snd ?specs)))" by (simp add: dcols_def pcols_def)
    show "''unique_id'' \<notin> fst ` set (concat (map snd ?specs))" by (simp add: dcols_def pcols_def)
  qed
  then obtain MK where MK: "merge_dataframes (map (\<lambda>p. tab (fst p) (snd p)) ?specs)
               = Inr (tab MK (present_cols fp m h ps))" "distinct MK" "supp_in MK (present_cols fp m h ps)"
    by (auto simp: present_cols_def)
  have l: "merge (atomic_polygons zs) (tab MK (present_cols fp m h ps)) ''unique_id'' LeftJoin (''_x'', ''_y'')
           = Inr (joined zs (present_cols fp m h ps))"
    by (rule atomic_left_merge[OF MK(2,3)]) (auto simp: present_cols_def dcols_def pcols_def)
  show ?thesis
    using MK(1) l by (simp add: bindE_Inr)
qed

lemma present_eq:
  "present fp zs (shapefiles_present (points_table ps) m h)
   = Inr (joined zs (present_cols fp m h ps)
          @ [(''depcaAfg'', point_flag_col fp zs ps), (''mod_cAfg'', layer_flag fp zs m),
             (''100Afg'', layer_flag fp zs h),
             (''BZ_present'', bz_union (length zs) (point_flag_col fp zs ps) (layer_flag fp zs m)
                                (layer_flag fp zs h))])"
proof -
  have n: "map (\<lambda>l. new_field_name (flag_field l)) (tl (shapefiles_present (points_table ps) m h))
           = [''mod_cA'', ''100A'']"
    by (simp add: shapefiles_present_def)
  have h0: "(case shapefiles_present (points_table ps) m h of [] \<Rightarrow> Inl IndexError
             | l # _ \<Rightarrow> present_311_csv fp (gdf l))
            = Inr (tab (group_keys (map pt_unique_id ps)) (pcols fp ps))"
    by (simp add: shapefiles_present_def present_311_csv_eq)
  have pf: "point_flag (joined zs (present_cols fp m h ps))
            = Inr (joined zs (present_cols fp m h ps) @ [(''depcaAfg'', point_flag_col fp zs ps)])"
    by (simp add: point_flag_def joined_def present_cols_def dcols_def pcols_def getitem_def
        setitem_def names_def nrows_def loc_assign_def bindE_Inr point_flag_col_def
        point_count_def Let_def cong: bindE_weak_cong)
  have af: "area_flags fp [''mod_cA'', ''100A'']
              (joined zs (present_cols fp m h ps) @ [(''depcaAfg'', d)])
            = Inr (joined zs (present_cols fp m h ps)
                   @ [(''depcaAfg'', d), (''mod_cAfg'', layer_flag fp zs m), (''100Afg'', layer_flag fp zs h)])" for d
    by (simp add: joined_def present_cols_def dcols_def pcols_def getitem_def setitem_def names_def
        bindE_Inr bindE_Inl layer_flag_def layer_area_def cong: bindE_weak_cong)
  have uf: "union_flag (joined zs (present_cols fp m h ps)
                   @ [(''depcaAfg'', a), (''mod_cAfg'', b), (''100Afg'', c)])
              ''BZ_present'' ''depcaAfg'' ''mod_cAfg'' ''100Afg''
            = joined zs (present_cols fp m h ps)
                   @ [(''depcaAfg'', a), (''mod_cAfg'', b), (''100Afg'', c),
                      (''BZ_present'', bz_union (length zs) a b c)]" for a b c
    by (simp add: joined_def present_cols_def dcols_def pcols_def union_flag_def setitem_def names_def
        loc_assign_def get_def nrows_def bz_union_def)
  show ?thesis
    unfolding present_def n Let_def present_loop_eq h0
    by (simp only: bindE_Inr append.simps present_joined pf af uf)
qed

lemma nums_group_cells:
  "nums (group_cells (map frag_unique_id fs) (map (\<lambda>f. Num (frag_geometry f)) fs) u)
   = map frag_geometry (fragments_of fs u)"
  by (induction fs) (auto simp: group_cells_def fragments_of_def)

lemma in_group_keys_frag:
  "u \<in> set (group_keys (map frag_unique_id fs)) \<longleftrightarrow> u \<noteq> NaN \<and> fragments_of fs u \<noteq> []"
  by (auto simp: set_group_keys fragments_of_def filter_empty_conv)

lemma gcol_area:
  "gcol fp (map frag_unique_id fs) (map (\<lambda>f. Num (frag_geometry f)) fs) AggSum u
   = (case aggregate_area fp fs u of None \<Rightarrow> NaN | Some a \<Rightarrow> Num a)"
  by (simp add: gcol_def in_group_keys_frag aggregate_area_def nums_group_cells)

lemma layer_area_eq:
  "layer_area fp zs fs
   = map (\<lambda>z. case aggregate_area fp fs (unique_id z) of None \<Rightarrow> NaN | Some a \<Rightarrow> Num a) zs"
  by (simp add: layer_area_def gcol_area o_def)

lemma layer_flag_eq:
  "layer_flag fp zs fs = map (\<lambda>z. Num (area_rule fp (aggregate_area fp fs (unique_id z)) (geometry z))) zs"
proof -
  have "cell_ge (case a of None \<Rightarrow> NaN | Some x \<Rightarrow> Num x) (Num (fmul fp (10 / 100) g))
        = (area_rule fp a g = 1)" for a g
    by (cases a) (simp_all add: area_rule_def)
  then show ?thesis
    by (simp add: layer_flag_def layer_area_eq astype_int_def ge_def scale_def map2_map_map o_def
        area_rule_def split: option.split)
qed

lemma group_cells_points:
  "group_cells (map pt_unique_id ps) (map pt_Point_Coun ps) u = map pt_Point_Coun (zone_points ps u)"
  by (induction ps) (auto simp: group_cells_def zone_points_def)

lemma in_group_keys_pts:
  "u \<in> set (group_keys (map pt_unique_id ps)) \<longleftrightarrow> u \<noteq> NaN \<and> zone_points ps u \<noteq> []"
  by (auto simp: set_group_keys zone_points_def filter_empty_conv)

lemma gcol_count:
  "gcol fp (map pt_unique_id ps) (map pt_Point_Coun ps) AggFirst u = recorded_count ps u"
  by (simp add: gcol_def in_group_keys_pts group_cells_points recorded_count_def)

lemma point_count_eq: "point_count fp zs ps = map (\<lambda>z. recorded_count ps (unique_id z)) zs"
  by (simp add: point_count_def gcol_count o_def)

lemma point_flag_col_eq:
  "point_flag_col fp zs ps = map (\<lambda>z. Num (count_rule (recorded_count ps (unique_id z)))) zs"
proof -
  have "map2 (\<lambda>m x. if m then Num 1 else x) (map f zs) (replicate (length zs) (Num 0))
        = map (\<lambda>z. if f z then Num 1 else Num 0) zs" for f :: "zone \<Rightarrow> bool"
    by (induction zs) auto
  then show ?thesis
    by (simp add: point_flag_col_def point_count_eq ge_scalar_def o_def count_rule_def
        split: cell.split)
qed

lemma bz_union_maps:
  "bz_union (length zs) (map fa zs) (map fb zs) (map fc zs)
   = map (\<lambda>z. Num (union_rule (fa z) (fb z) (fc z))) zs"
proof -
  have "cell_eq x (Num 1) = (x = Num 1)" for x
    by (cases x) auto
  then show ?thesis
    by (induction zs) (auto simp: bz_union_def or_mask_def eq_scalar_def union_rule_def)
qed

lemma dissolved_past_entry:
  assumes "ff \<in> set past_flag_fields"
  shows "dissolved_past fp (past_entry fs ff) = Inr (tab (dkeys fs) (dcols fp fs ff None))"
proof -
  have "ff \<noteq> ''unique_id'' \<and> ff \<noteq> ''geometry'' \<and> new_field_name ff \<noteq> ''unique_id''
        \<and> new_field_name ff \<noteq> ''geometry'' \<and> new_field_name ff \<noteq> ff"
    using assms by (auto simp: past_flag_fields_def)
  then show ?thesis
    using dissolve_overlay[of ff fs None] by (simp add: dissolved_past_def past_entry_def)
qed

lemma past_dissolved:
  "mapE (dissolved_past fp) (shapefiles_past p) = Inr (map (\<lambda>q. tab (fst q) (snd q)) (past_specs fp p))"
  by (simp add: shapefiles_past_def dissolved_past_entry past_flag_fields_def bindE_Inr
      past_specs_def past_fragments_def)

lemma past_names:
  "map fst (past_cols fp p) =
     [''beachA'', ''beaches'', ''rivA'', ''river'', ''fresh_weA'', ''fresh_wetl'', ''mariA'',
      ''marine'', ''poA'', ''pond'', ''saltmarA'', ''saltmarsh'', ''streaA'', ''streams'',
      ''dunA'', ''dunes'', ''tidal_crA'', ''tidal_cree'', ''int_streA'', ''int_stream'']"
  by (simp add: past_cols_def past_specs_def past_fragments_def past_flag_fields_def dcols_def)

lemma past_distinct: "distinct (map fst (past_cols fp p))"
  by (simp add: past_names)

lemma past_notkey:
  "''unique_id'' \<notin> fst ` set (past_cols fp p)" "''geometry'' \<notin> fst ` set (past_cols fp p)"
  "''area'' \<notin> fst ` set (past_cols fp p)" "''past_sum'' \<notin> fst ` set (past_cols fp p)"
  "''BZ_past'' \<notin> fst ` set (past_cols fp p)"
  using past_names[of fp p] by (simp_all flip: set_map)

lemma past_merged:
  "\<exists>MK. merge_dataframes (map (\<lambda>q. tab (fst q) (snd q)) (past_specs fp p))
           = Inr (tab MK (past_cols fp p))
         \<and> distinct MK \<and> set MK = \<Union> (set ` dkeys ` set (past_fragments p))
         \<and> supp_in MK (past_cols fp p)"
proof -
  obtain q specs where qs: "past_specs fp p = q # specs"
    by (cases "past_specs fp p") (simp_all add: past_specs_def past_fragments_def past_flag_fields_def)
  have el: "distinct (fst r) \<and> supp_in (fst r) (snd r)" if "r \<in> set (past_specs fp p)" for r
    using that by (auto simp: past_specs_def distinct_dkeys supp_in_dcols dest!: in_set_zipE)
  have ks: "\<Union> (set ` fst ` set (past_specs fp p)) = \<Union> (set ` dkeys ` set (past_fragments p))"
    by (simp add: past_specs_def past_fragments_def past_flag_fields_def)
  have "\<exists>MK. merge_dataframes (map (\<lambda>p. tab (fst p) (snd p)) (q # specs))
               = Inr (tab MK (concat (map snd (q # specs))))
             \<and> distinct MK \<and> set MK = \<Union> (set ` fst ` set (q # specs))
             \<and> supp_in MK (concat (map snd (q # specs)))"
  proof (rule merge_dataframes_tab)
    show "distinct (fst r) \<and> supp_in (fst r) (snd r)" if "r \<in> set (q # specs)" for r
      using el that unfolding qs by blast
    show "distinct (map fst (concat (map snd (q # specs))))"
      using past_distinct[of fp p] unfolding past_cols_def qs .
    show "''unique_id'' \<notin> fst ` set (concat (map snd (q # specs)))"
      using past_notkey(1)[of fp p] unfolding past_cols_def qs .
  qed
  then show ?thesis
    unfolding qs[symmetric] ks past_cols_def[symmetric] .
qed

lemma filter_unique_name:
  "distinct (map fst fs) \<Longrightarrow> (n, g) \<in> set fs \<Longrightarrow> filter (\<lambda>c. fst c = n) fs = [(n, g)]"
proof (induction fs)
  case Nil
  then show ?case by simp
next
  case (Cons c fs)
  show ?case
  proof (cases "c = (n, g)")
    case True
    then have "filter (\<lambda>c. fst c = n) fs = []"
      using Cons.prems(1) by (force simp: filter_empty_conv)
    with True show ?thesis by simp
  next
    case False
    then have "(n, g) \<in> set fs" using Cons.prems(2) by simp
    moreover from this have "n \<in> fst ` set fs" by force
    then have "fst c \<noteq> n" using Cons.prems(1) by auto
    ultimately show ?thesis using Cons \<open>fst c \<noteq> n\<close> by simp
  qed
qed

lemma getitem_unique:
  "distinct (names df) \<Longrightarrow> (n, s) \<in> set df \<Longrightarrow> getitem df n = Inr s"
  by (simp add: getitem_def names_def filter_unique_name)

lemma names_tab: "names (tab K fs) = ''unique_id'' # map fst fs"
  by (simp add: names_def tab_def o_def)

lemma nrows_tab: "nrows (tab K fs) = length K"
  by (simp add: nrows_def tab_def)

lemma getitem_tab:
  assumes "distinct (map fst fs)" "''unique_id'' \<notin> fst ` set fs" "(n, g) \<in> set fs"
  shows "getitem (tab K fs) n = Inr (map g K)"
proof (rule getitem_unique)
  show "distinct (names (tab K fs))" using assms(1,2) by (simp add: names_tab)
  show "(n, map g K) \<in> set (tab K fs)" using assms(3) by (force simp: tab_def)
qed

lemma getitems_tab:
  assumes "distinct (map fst fs)" "''unique_id'' \<notin> fst ` set fs" "set ngs \<subseteq> set fs"
  shows "getitems (tab K fs) (map fst ngs) = Inr (map (\<lambda>c. map (snd c) K) ngs)"
  using assms(3)
proof (induction ngs)
  case Nil
  then show ?case by simp
next
  case (Cons c ngs)
  have "getitem (tab K fs) (fst c) = Inr (map (snd c) K)"
    using Cons.prems by (intro getitem_tab[OF assms(1,2)]) simp
  then show ?case using Cons by (simp add: bindE_Inr)
qed

lemma sum_axis1_tab:
  "sum_axis1 fp (length K) (map (\<lambda>c. map (snd c) K) ngs)
   = map (\<lambda>k. Num (rsum fp (nums (map (\<lambda>c. snd c k) ngs)))) K"
  by (auto simp: sum_axis1_def o_def intro!: nth_equalityI cong: map_cong)

lemma setitem_tab:
  "n \<notin> fst ` set fs \<Longrightarrow> n \<noteq> ''unique_id'' \<Longrightarrow>
   setitem (tab K fs) n (map g K) = tab K (fs @ [(n, g)])"
  by (simp add: setitem_def names_tab) (simp add: tab_def)

lemma names_joined: "names (joined zs gs) = ''unique_id'' # ''geometry'' # ''area'' # map fst gs"
  by (simp add: names_def joined_def o_def)

lemma getitem_joined:
  assumes "distinct (map fst gs)" "''unique_id'' \<notin> fst ` set gs" "''geometry'' \<notin> fst ` set gs"
    "''area'' \<notin> fst ` set gs" "(n, g) \<in> set gs"
  shows "getitem (joined zs gs) n = Inr (map g (map unique_id zs))"
proof (rule getitem_unique)
  show "distinct (names (joined zs gs))" using assms(1-4) by (simp add: names_joined)
  show "(n, map g (map unique_id zs)) \<in> set (joined zs gs)"
    using assms(5) by (force simp: joined_def)
qed

lemma getitem_joined_area:
  assumes "''area'' \<notin> fst ` set gs"
  shows "getitem (joined zs gs) ''area'' = Inr (map (\<lambda>z. Num (geometry z)) zs)"
proof -
  have "filter (\<lambda>c. fst c = ''area'') (map (\<lambda>c. (fst c, map (snd c) (map unique_id zs))) gs) = []"
    using assms by (force simp: filter_empty_conv)
  then show ?thesis by (simp add: getitem_def joined_def)
qed

lemma setitem_new: "n \<notin> set (names df) \<Longrightarrow> setitem df n s = df @ [(n, s)]"
  by (simp add: setitem_def)

lemma past_area_names:
  "map (\<lambda>l. new_field_name (flag_field l)) (shapefiles_past p) = map fst (past_area_cols fp p)"
  by (simp add: shapefiles_past_def past_entry_def past_area_cols_def past_fragments_def
      past_flag_fields_def)

lemma past_area_sub: "set (past_area_cols fp p) \<subseteq> set (past_cols fp p)"
  by (simp add: past_area_cols_def past_cols_def past_specs_def past_fragments_def
      past_flag_fields_def dcols_def)

lemma past_area_vals:
  "map (\<lambda>c. snd c k) (past_area_cols fp p)
   = map (\<lambda>fs. gcol fp (map frag_unique_id fs) (map (\<lambda>f. Num (frag_geometry f)) fs) AggSum k)
       (past_fragments p)"
  by (simp add: past_area_cols_def past_fragments_def past_flag_fields_def)

lemma past_eq:
  "past fp zs (shapefiles_past p)
   = Inr (joined zs (past_cols fp p @ [(''past_sum'', past_total fp p)])
          @ [(''BZ_past'', past_flag fp zs p)])"
proof -
  obtain MK where MK:
    "merge_dataframes (map (\<lambda>q. tab (fst q) (snd q)) (past_specs fp p)) = Inr (tab MK (past_cols fp p))"
    "distinct MK" "set MK = \<Union> (set ` dkeys ` set (past_fragments p))"
    "supp_in MK (past_cols fp p)"
    using past_merged[of fp p] by blast
  let ?gs = "past_cols fp p @ [(''past_sum'', past_total fp p)]"
  have gi: "getitems (tab MK (past_cols fp p)) (map fst (past_area_cols fp p))
            = Inr (map (\<lambda>c. map (snd c) MK) (past_area_cols fp p))"
    by (rule getitems_tab[OF past_distinct past_notkey(1) past_area_sub])
  have sm: "sum_axis1 fp (nrows (tab MK (past_cols fp p))) (map (\<lambda>c. map (snd c) MK) (past_area_cols fp p))
            = map (past_total fp p) MK"
    unfolding nrows_tab sum_axis1_tab past_area_vals
    by (rule map_cong) (simp_all add: past_total_def MK(3))
  have st: "setitem (tab MK (past_cols fp p)) ''past_sum'' (map (past_total fp p) MK) = tab MK ?gs"
    by (rule setitem_tab) (use past_notkey(4) in simp_all)
  have sp: "supp_in MK ?gs"
    using MK(4) by (auto simp: supp_in_def past_total_def MK(3))
  have nk: "''unique_id'' \<notin> fst ` set ?gs" "''geometry'' \<notin> fst ` set ?gs" "''area'' \<notin> fst ` set ?gs"
    using past_notkey[of fp p] by simp_all
  have dg: "distinct (map fst ?gs)"
    using past_distinct[of fp p] past_notkey(4)[of fp p] by simp
  have lm: "merge (atomic_polygons zs) (tab MK ?gs) ''unique_id'' LeftJoin (''_x'', ''_y'')
            = Inr (joined zs ?gs)"
    by (rule atomic_left_merge[OF MK(2) sp nk])
  have ga: "getitem (joined zs ?gs) ''area'' = Inr (map (\<lambda>z. Num (geometry z)) zs)"
    by (rule getitem_joined_area[OF nk(3)])
  have gp: "getitem (joined zs ?gs) ''past_sum'' = Inr (map (past_total fp p) (map unique_id zs))"
    by (rule getitem_joined[OF dg nk]) simp
  have sb: "setitem (joined zs ?gs) ''BZ_past'' x = joined zs ?gs @ [(''BZ_past'', x)]" for x
    by (rule setitem_new) (use past_notkey(5)[of fp p] in \<open>simp add: names_joined\<close>)
  show ?thesis
    unfolding past_def Let_def past_dissolved past_area_names[where fp = fp]
    by (simp only: bindE_Inr MK(1) gi sm st lm ga gp sb past_flag_def)
qed

lemma nums_aggregates:
  "nums (map (\<lambda>fs. case aggregate_area fp fs u of None \<Rightarrow> NaN | Some a \<Rightarrow> Num a) L)
   = present_values (map (\<lambda>fs. aggregate_area fp fs u) L)"
  by (induction L) (auto simp: present_values_def split: option.split)

lemma past_total_eq:
  "past_total fp p u = (case past_sum_value fp p u of None \<Rightarrow> NaN | Some a \<Rightarrow> Num a)"
proof -
  have k: "u \<in> \<Union> (set ` dkeys ` set (past_fragments p))
           \<longleftrightarrow> \<not> list_all (\<lambda>a. a = None) (map (\<lambda>fs. aggregate_area fp fs u) (past_fragments p))"
    by (auto simp: dkeys_def in_group_keys_frag aggregate_area_def list_all_iff)
  show ?thesis
    unfolding past_total_def k gcol_area nums_aggregates
    by (simp add: past_sum_value_def Let_def)
qed

lemma past_flag_eq:
  "past_flag fp zs p = map (\<lambda>z. Num (area_rule fp (past_sum_value fp p (unique_id z)) (geometry z))) zs"
proof -
  have "cell_ge (case a of None \<Rightarrow> NaN | Some x \<Rightarrow> Num x) (Num (fmul fp (10 / 100) g))
        = (area_rule fp a g = 1)" for a g
    by (cases a) (simp_all add: area_rule_def)
  then show ?thesis
    by (simp add: past_flag_def past_total_eq astype_int_def ge_def scale_def map2_map_map o_def
        area_rule_def split: option.split)
qed

lemma getitem_append_right:
  "n \<notin> set (names df) \<Longrightarrow> getitem (df @ ex) n = getitem ex n"
proof -
  assume "n \<notin> set (names df)"
  then have "filter (\<lambda>c. fst c = n) df = []"
    by (force simp: names_def filter_empty_conv)
  then show ?thesis by (simp add: getitem_def)
qed

lemma getitem_append_left:
  "n \<notin> set (names ex) \<Longrightarrow> getitem (df @ ex) n = getitem df n"
proof -
  assume "n \<notin> set (names ex)"
  then have "filter (\<lambda>c. fst c = n) ex = []"
    by (force simp: names_def filter_empty_conv)
  then show ?thesis by (simp add: getitem_def)
qed

lemma getitem_joined_key: "''unique_id'' \<notin> fst ` set gs \<Longrightarrow>
  getitem (joined zs gs) ''unique_id'' = Inr (map unique_id zs)"
proof -
  assume a: "''unique_id'' \<notin> fst ` set gs"
  have "filter (\<lambda>c. fst c = ''unique_id'') (map (\<lambda>c. (fst c, map (snd c) (map unique_id zs))) gs) = []"
    using a by (force simp: filter_empty_conv)
  then show ?thesis by (simp add: getitem_def joined_def)
qed

lemma lengths_joined: "c \<in> set (joined zs gs) \<Longrightarrow> length (snd c) = length zs"
  by (auto simp: joined_def)

lemma future_names:
  "map fst (future_cols fp m e f)
   = [''mod_20A'', ''mod_2050'', ''mo_20_fldC'', ''ext_20A'', ''ext_2080'', ''ex_20_fldC'',
      ''500A'', ''500yr'']"
  by (simp add: future_cols_def dcols_def)

lemma future_area_cols:
  "(''mod_20A'', gcol fp (map frag_unique_id m) (map (\<lambda>f. Num (frag_geometry f)) m) AggSum)
     \<in> set (future_cols fp m e f)"
  "(''ext_20A'', gcol fp (map frag_unique_id e) (map (\<lambda>f. Num (frag_geometry f)) e) AggSum)
     \<in> set (future_cols fp m e f)"
  "(''500A'', gcol fp (map frag_unique_id f) (map (\<lambda>f. Num (frag_geometry f)) f) AggSum)
     \<in> set (future_cols fp m e f)"
  by (simp_all add: future_cols_def dcols_def)

lemma future_result:
  "\<exists>T. future fp zs (shapefiles_future m e f) = Inr T
     \<and> names T = [''unique_id'', ''geometry'', ''area'', ''mod_20A'', ''mod_2050'', ''mo_20_fldC'',
          ''ext_20A'', ''ext_2080'', ''ex_20_fldC'', ''500A'', ''500yr'', ''mod_20Afg'',
          ''ext_20Afg'', ''500Afg'', ''BZ_future'']
     \<and> (\<forall>c \<in> set T. length (snd c) = length zs)
     \<and> getitem T ''unique_id'' = Inr (map unique_id zs)
     \<and> getitem T ''area'' = Inr (map (\<lambda>z. Num (geometry z)) zs)
     \<and> getitem T ''mod_20A'' = Inr (map (agg_cell fp m) zs)
     \<and> getitem T ''ext_20A'' = Inr (map (agg_cell fp e) zs)
     \<and> getitem T ''500A'' = Inr (map (agg_cell fp f) zs)
     \<and> getitem T ''mod_20Afg'' = Inr (map (flag_cell fp m) zs)
     \<and> getitem T ''ext_20Afg'' = Inr (map (flag_cell fp e) zs)
     \<and> getitem T ''500Afg'' = Inr (map (flag_cell fp f) zs)
     \<and> getitem T ''BZ_future''
         = Inr (map (\<lambda>z. Num (union_rule (flag_cell fp m z) (flag_cell fp e z) (flag_cell fp f z))) zs)"
proof -
  let ?J = "joined zs (future_cols fp m e f)"
  let ?bz = "map (\<lambda>z. Num (union_rule (flag_cell fp m z) (flag_cell fp e z) (flag_cell fp f z))) zs"
  let ?X = "[(''mod_20Afg'', map (flag_cell fp m) zs), (''ext_20Afg'', map (flag_cell fp e) zs),
             (''500Afg'', map (flag_cell fp f) zs), (''BZ_future'', ?bz)]"
  have lf: "layer_flag fp zs fs = map (flag_cell fp fs) zs" for fs
    by (simp add: layer_flag_eq flag_cell_def)
  have T: "future fp zs (shapefiles_future m e f) = Inr (?J @ ?X)"
    by (simp add: future_eq lf bz_union_maps)
  have nJ: "names ?J = [''unique_id'', ''geometry'', ''area'', ''mod_20A'', ''mod_2050'',
              ''mo_20_fldC'', ''ext_20A'', ''ext_2080'', ''ex_20_fldC'', ''500A'', ''500yr'']"
    by (simp add: names_joined future_names)
  have nX: "names ?X = [''mod_20Afg'', ''ext_20Afg'', ''500Afg'', ''BZ_future'']"
    by (simp add: names_def)
  have nk: "''unique_id'' \<notin> fst ` set (future_cols fp m e f)"
    "''geometry'' \<notin> fst ` set (future_cols fp m e f)" "''area'' \<notin> fst ` set (future_cols fp m e f)"
    using future_names[of fp m e f] by (simp_all flip: set_map)
  have dn: "distinct (map fst (future_cols fp m e f))"
    by (simp add: future_names)
  have c1: "names (?J @ ?X) = names ?J @ names ?X" by (simp add: names_def)
  have c2: "\<forall>c \<in> set (?J @ ?X). length (snd c) = length zs"
    by (auto simp: lengths_joined)
  have c3: "getitem (?J @ ?X) ''unique_id'' = Inr (map unique_id zs)"
    by (simp add: getitem_append_left nX getitem_joined_key[OF nk(1)])
  have c4: "getitem (?J @ ?X) ''area'' = Inr (map (\<lambda>z. Num (geometry z)) zs)"
    by (simp add: getitem_append_left nX getitem_joined_area[OF nk(3)])
  have c5: "getitem (?J @ ?X) ''mod_20A'' = Inr (map (agg_cell fp m) zs)"
    "getitem (?J @ ?X) ''ext_20A'' = Inr (map (agg_cell fp e) zs)"
    "getitem (?J @ ?X) ''500A'' = Inr (map (agg_cell fp f) zs)"
    by (simp_all add: getitem_append_left nX getitem_joined[OF dn nk future_area_cols(1)]
        getitem_joined[OF dn nk future_area_cols(2)] getitem_joined[OF dn nk future_area_cols(3)]
        gcol_area agg_cell_def)
  have c6: "getitem (?J @ ?X) ''mod_20Afg'' = Inr (map (flag_cell fp m) zs)"
    "getitem (?J @ ?X) ''ext_20Afg'' = Inr (map (flag_cell fp e) zs)"
    "getitem (?J @ ?X) ''500Afg'' = Inr (map (flag_cell fp f) zs)"
    "getitem (?J @ ?X) ''BZ_future'' = Inr ?bz"
    by (simp_all add: getitem_append_right nJ) (simp_all add: getitem_def)
  show ?thesis
    using T c1 c2 c3 c4 c5 c6 unfolding nJ nX by (intro exI[of _ "?J @ ?X"]) simp
qed

lemma present_names:
  "map fst (present_cols fp m h ps)
   = [''mod_cA'', ''mod_cur'', ''mo_cu_fldC'', ''100A'', ''100yr'', ''depcall'', ''Point_Coun'']"
  by (simp add: present_cols_def dcols_def pcols_def)

lemma present_area_cols:
  "(''mod_cA'', gcol fp (map frag_unique_id m) (map (\<lambda>f. Num (frag_geometry f)) m) AggSum)
     \<in> set (present_cols fp m h ps)"
  "(''100A'', gcol fp (map frag_unique_id h) (map (\<lambda>f. Num (frag_geometry f)) h) AggSum)
     \<in> set (present_cols fp m h ps)"
  "(''Point_Coun'', gcol fp (map pt_unique_id ps) (map pt_Point_Coun ps) AggFirst)
     \<in> set (present_cols fp m h ps)"
  by (simp_all add: present_cols_def dcols_def pcols_def)

lemma present_result:
  "\<exists>T. present fp zs (shapefiles_present (points_table ps) m h) = Inr T
     \<and> names T = [''unique_id'', ''geometry'', ''area'', ''mod_cA'', ''mod_cur'', ''mo_cu_fldC'',
          ''100A'', ''100yr'', ''depcall'', ''Point_Coun'', ''depcaAfg'', ''mod_cAfg'', ''100Afg'',
          ''BZ_present'']
     \<and> (\<forall>c \<in> set T. length (snd c) = length zs)
     \<and> getitem T ''unique_id'' = Inr (map unique_id zs)
     \<and> getitem T ''area'' = Inr (map (\<lambda>z. Num (geometry z)) zs)
     \<and> getitem T ''mod_cA'' = Inr (map (agg_cell fp m) zs)
     \<and> getitem T ''100A'' = Inr (map (agg_cell fp h) zs)
     \<and> getitem T ''Point_Coun'' = Inr (map (\<lambda>z. recorded_count ps (unique_id z)) zs)
     \<and> getitem T ''depcaAfg'' = Inr (map (count_cell ps) zs)
     \<and> getitem T ''mod_cAfg'' = Inr (map (flag_cell fp m) zs)
     \<and> getitem T ''100Afg'' = Inr (map (flag_cell fp h) zs)
     \<and> getitem T ''BZ_present''
         = Inr (map (\<lambda>z. Num (union_rule (count_cell ps z) (flag_cell fp m z) (flag_cell fp h z))) zs)"
proof -
  let ?J = "joined zs (present_cols fp m h ps)"
  let ?bz = "map (\<lambda>z. Num (union_rule (count_cell ps z) (flag_cell fp m z) (flag_cell fp h z))) zs"
  let ?X = "[(''depcaAfg'', map (count_cell ps) zs), (''mod_cAfg'', map (flag_cell fp m) zs),
             (''100Afg'', map (flag_cell fp h) zs), (''BZ_present'', ?bz)]"
  have lf: "layer_flag fp zs fs = map (flag_cell fp fs) zs" for fs
    by (simp add: layer_flag_eq flag_cell_def)
  have pf: "point_flag_col fp zs ps = map (count_cell ps) zs"
    by (simp add: point_flag_col_eq count_cell_def)
  have T: "present fp zs (shapefiles_present (points_table ps) m h) = Inr (?J @ ?X)"
    by (simp add: present_eq lf pf bz_union_maps)
  have nJ: "names ?J = [''unique_id'', ''geometry'', ''area'', ''mod_cA'', ''mod_cur'',
              ''mo_cu_fldC'', ''100A'', ''100yr'', ''depcall'', ''Point_Coun'']"
    by (simp add: names_joined present_names)
  have nX: "names ?X = [''depcaAfg'', ''mod_cAfg'', ''100Afg'', ''BZ_present'']"
    by (simp add: names_def)
  have nk: "''unique_id'' \<notin> fst ` set (present_cols fp m h ps)"
    "''geometry'' \<notin> fst ` set (present_cols fp m h ps)" "''area'' \<notin> fst ` set (present_cols fp m h ps)"
    using present_names[of fp m h ps] by (simp_all flip: set_map)
  have dn: "distinct (map fst (present_cols fp m h ps))"
    by (simp add: present_names)
  have c1: "names (?J @ ?X) = names ?J @ names ?X" by (simp add: names_def)
  have c2: "\<forall>c \<in> set (?J @ ?X). length (snd c) = length zs"
    by (auto simp: lengths_joined)
  have c3: "getitem (?J @ ?X) ''unique_id'' = Inr (map unique_id zs)"
    by (simp add: getitem_append_left nX getitem_joined_key[OF nk(1)])
  have c4: "getitem (?J @ ?X) ''area'' = Inr (map (\<lambda>z. Num (geometry z)) zs)"
    by (simp add: getitem_append_left nX getitem_joined_area[OF nk(3)])
  have c5: "getitem (?J @ ?X) ''mod_cA'' = Inr (map (agg_cell fp m) zs)"
    "getitem (?J @ ?X) ''100A'' = Inr (map (agg_cell fp h) zs)"
    "getitem (?J @ ?X) ''Point_Coun'' = Inr (map (\<lambda>z. recorded_count ps (unique_id z)) zs)"
    by (simp_all add: getitem_append_left nX getitem_joined[OF dn nk present_area_cols(1)]
        getitem_joined[OF dn nk present_area_cols(2)] getitem_joined[OF dn nk present_area_cols(3)]
        gcol_area gcol_count agg_cell_def)
  have c6: "getitem (?J @ ?X) ''depcaAfg'' = Inr (map (count_cell ps) zs)"
    "getitem (?J @ ?X) ''mod_cAfg'' = Inr (map (flag_cell fp m) zs)"
    "getitem (?J @ ?X) ''100Afg'' = Inr (map (flag_cell fp h) zs)"
    "getitem (?J @ ?X) ''BZ_present'' = Inr ?bz"
    by (simp_all add: getitem_append_right nJ) (simp_all add: getitem_def)
  show ?thesis
    using T c1 c2 c3 c4 c5 c6 unfolding nJ nX by (intro exI[of _ "?J @ ?X"]) simp
qed

lemma past_area_col_nth:
  assumes "j < 10"
  shows "(new_field_name (past_flag_fields ! j),
          gcol fp (map frag_unique_id (past_fragments p ! j))
               (map (\<lambda>f. Num (frag_geometry f)) (past_fragments p ! j)) AggSum)
         \<in> set (past_cols fp p)"
proof -
  have l: "length (past_fragments p) = 10" "length past_flag_fields = 10"
    by (simp_all add: past_fragments_def past_flag_fields_def)
  have "past_area_cols fp p ! j = (new_field_name (past_flag_fields ! j),
          gcol fp (map frag_unique_id (past_fragments p ! j))
               (map (\<lambda>f. Num (frag_geometry f)) (past_fragments p ! j)) AggSum)"
    using assms l by (simp add: past_area_cols_def)
  moreover have "past_area_cols fp p ! j \<in> set (past_area_cols fp p)"
    using assms l by (intro nth_mem) (simp add: past_area_cols_def)
  ultimately show ?thesis using past_area_sub[of fp p] by auto
qed

lemma past_result:
  "\<exists>T. past fp zs (shapefiles_past p) = Inr T
     \<and> names T = [''unique_id'', ''geometry'', ''area'', ''beachA'', ''beaches'', ''rivA'',
          ''river'', ''fresh_weA'', ''fresh_wetl'', ''mariA'', ''marine'', ''poA'', ''pond'',
          ''saltmarA'', ''saltmarsh'', ''streaA'', ''streams'', ''dunA'', ''dunes'', ''tidal_crA'',
          ''tidal_cree'', ''int_streA'', ''int_stream'', ''past_sum'', ''BZ_past'']
     \<and> (\<forall>c \<in> set T. length (snd c) = length zs)
     \<and> getitem T ''unique_id'' = Inr (map unique_id zs)
     \<and> getitem T ''area'' = Inr (map (\<lambda>z. Num (geometry z)) zs)
     \<and> (\<forall>j < 10. getitem T (new_field_name (past_flag_fields ! j))
                    = Inr (map (agg_cell fp (past_fragments p ! j)) zs))
     \<and> getitem T ''past_sum'' = Inr (map (past_sum_cell fp p) zs)
     \<and> getitem T ''BZ_past'' = Inr (map (past_flag_cell fp p) zs)"
proof -
  let ?gs = "past_cols fp p @ [(''past_sum'', past_total fp p)]"
  let ?J = "joined zs ?gs"
  let ?X = "[(''BZ_past'', map (past_flag_cell fp p) zs)]"
  have T: "past fp zs (shapefiles_past p) = Inr (?J @ ?X)"
    by (simp add: past_eq past_flag_eq past_flag_cell_def)
  have nJ: "names ?J = [''unique_id'', ''geometry'', ''area'', ''beachA'', ''beaches'', ''rivA'',
          ''river'', ''fresh_weA'', ''fresh_wetl'', ''mariA'', ''marine'', ''poA'', ''pond'',
          ''saltmarA'', ''saltmarsh'', ''streaA'', ''streams'', ''dunA'', ''dunes'', ''tidal_crA'',
          ''tidal_cree'', ''int_streA'', ''int_stream'', ''past_sum'']"
    by (simp add: names_joined past_names)
  have nX: "names ?X = [''BZ_past'']"
    by (simp add: names_def)
  have nk: "''unique_id'' \<notin> fst ` set ?gs" "''geometry'' \<notin> fst ` set ?gs" "''area'' \<notin> fst ` set ?gs"
    using past_notkey[of fp p] by simp_all
  have dg: "distinct (map fst ?gs)"
    using past_distinct[of fp p] past_notkey(4)[of fp p] by simp
  have bzJ: "''BZ_past'' \<notin> set (names ?J)"
    unfolding nJ by simp
  have c1: "names (?J @ ?X) = names ?J @ names ?X" by (simp add: names_def)
  have c2: "\<forall>c \<in> set (?J @ ?X). length (snd c) = length zs"
    by (auto simp: lengths_joined)
  have c3: "getitem (?J @ ?X) ''unique_id'' = Inr (map unique_id zs)"
    by (simp add: getitem_append_left nX getitem_joined_key[OF nk(1)])
  have c4: "getitem (?J @ ?X) ''area'' = Inr (map (\<lambda>z. Num (geometry z)) zs)"
    by (simp add: getitem_append_left nX getitem_joined_area[OF nk(3)])
  have c5: "getitem (?J @ ?X) (new_field_name (past_flag_fields ! j))
            = Inr (map (agg_cell fp (past_fragments p ! j)) zs)" if "j < 10" for j
  proof -
    have m: "(new_field_name (past_flag_fields ! j),
              gcol fp (map frag_unique_id (past_fragments p ! j))
                (map (\<lambda>f. Num (frag_geometry f)) (past_fragments p ! j)) AggSum) \<in> set ?gs"
      using past_area_col_nth[OF that, of fp p] by simp
    have i: "new_field_name (past_flag_fields ! j) \<in> fst ` set (past_cols fp p)"
      using past_area_col_nth[OF that, of fp p] by (rule rev_image_eqI) simp
    have "new_field_name (past_flag_fields ! j) \<noteq> ''BZ_past''"
    proof
      assume "new_field_name (past_flag_fields ! j) = ''BZ_past''"
      then have "''BZ_past'' \<in> fst ` set (past_cols fp p)" using i by (simp only:)
      then show False using past_notkey(5)[of fp p] by (simp only: not_True_eq_False)
    qed
    then show ?thesis
      by (simp add: getitem_append_left nX getitem_joined[OF dg nk m] gcol_area agg_cell_def)
  qed
  have c6: "getitem (?J @ ?X) ''past_sum'' = Inr (map (past_sum_cell fp p) zs)"
    by (simp add: getitem_append_left nX getitem_joined[OF dg nk, of "''past_sum''" "past_total fp p"]
        past_total_eq past_sum_cell_def)
  have c7: "getitem (?J @ ?X) ''BZ_past'' = Inr (map (past_flag_cell fp p) zs)"
    by (simp add: getitem_append_right[OF bzJ]) (simp add: getitem_def)
  show ?thesis
    using T c1 c2 c3 c4 c5 c6 c7 unfolding nJ nX by (intro exI[of _ "?J @ ?X"]) simp
qed

lemma ex_aggregates:
  "map (agg_cell exact ex_frags) ex_zones = [Num 110, Num 100, Num 99, NaN]"
  "map (flag_cell exact ex_frags) ex_zones = [Num 1, Num 1, Num 0, Num 0]"
  "map (agg_cell exact []) ex_zones = [NaN, NaN, NaN, NaN]"
  "map (flag_cell exact []) ex_zones = [Num 0, Num 0, Num 0, Num 0]"
  by (simp_all add: agg_cell_def flag_cell_def aggregate_area_def fragments_of_def area_rule_def
      ex_frags_def ex_zones_def zone_ex_def frag_ex_def exact_def)

lemma ex_counts:
  "map (\<lambda>z. recorded_count ex_points (unique_id z)) ex_zones = [NaN, NaN, Num 2, Num 3]"
  "map (count_cell ex_points) ex_zones = [Num 0, Num 0, Num 0, Num 1]"
  "map (count_cell []) ex_zones = [Num 0, Num 0, Num 0, Num 0]"
  by (simp_all add: count_cell_def recorded_count_def zone_points_def count_rule_def
      ex_points_def ex_zones_def zone_ex_def point_ex_def)

lemma area_rule_iff:
  "area_rule fp a A = 1 \<longleftrightarrow> (\<exists>x. a = Some x \<and> fmul fp (10 / 100) A \<le> x)"
  by (cases a) (simp_all add: area_rule_def)

lemma area_rule_cases: "area_rule fp a A = 0 \<or> area_rule fp a A = 1"
  by (cases a) (simp_all add: area_rule_def)

lemma ex_past:
  "map (past_sum_cell exact (no_past\<lparr>past_beaches := ex_frags\<rparr>)) ex_zones = [Num 110, Num 100, Num 99, NaN]"
  "map (past_flag_cell exact (no_past\<lparr>past_beaches := ex_frags\<rparr>)) ex_zones = [Num 1, Num 1, Num 0, Num 0]"
  by (simp_all add: past_sum_cell_def past_flag_cell_def past_sum_value_def past_fragments_def
      present_values_def aggregate_area_def fragments_of_def area_rule_def no_past_def
      ex_frags_def ex_zones_def zone_ex_def frag_ex_def exact_def)

lemma binary_map:
  "(\<And>z. g z = Num 0 \<or> g z = Num 1) \<Longrightarrow>
   length (map g zs) = length zs \<and> set (map g zs) \<subseteq> {Num 0, Num 1}"
  by auto

lemma flag_cell_binary: "flag_cell fp fs z = Num 0 \<or> flag_cell fp fs z = Num 1"
  using area_rule_cases[of fp "aggregate_area fp fs (unique_id z)" "geometry z"]
  by (auto simp: flag_cell_def)

lemma count_cell_binary: "count_cell ps z = Num 0 \<or> count_cell ps z = Num 1"
  by (simp add: count_cell_def count_rule_def split: cell.split)

lemma union_binary: "Num (union_rule a b c) = Num 0 \<or> Num (union_rule a b c) = Num 1"
  by (simp add: union_rule_def)

lemma count_list_distinct: "distinct xs \<Longrightarrow> x \<in> set xs \<Longrightarrow> count_list xs x = 1"
  by (induction xs) (auto simp: count_list_0_iff)

lemma past_flag_cell_iff:
  "past_flag_cell fp q z = Num 1
   \<longleftrightarrow> (\<exists>x. past_sum_value fp q (unique_id z) = Some x \<and> fmul fp (10 / 100) (geometry z) \<le> x)"
  by (simp add: past_flag_cell_def area_rule_iff)

lemma past_sum_value_iff:
  "past_sum_value fp q u = Some x
   \<longleftrightarrow> (\<exists>fs \<in> set (past_fragments q). aggregate_area fp fs u \<noteq> None)
       \<and> x = rsum fp (present_values (map (\<lambda>fs. aggregate_area fp fs u) (past_fragments q)))"
  by (auto simp: past_sum_value_def Let_def list_all_iff)

lemma ex_two:
  "map (past_sum_cell exact ex_past_two) [zone_ex 1 1000] = [Num 120]"
  "map (past_flag_cell exact ex_past_two) [zone_ex 1 1000] = [Num 1]"
  "map (agg_cell exact (past_fragments ex_past_two ! 0)) [zone_ex 1 1000] = [Num 60]"
  "map (agg_cell exact (past_fragments ex_past_two ! 1)) [zone_ex 1 1000] = [Num 60]"
  "list_all (\<lambda>fs. flag_cell exact fs (zone_ex 1 1000) = Num 0) (past_fragments ex_past_two)"
  by (simp_all add: past_sum_cell_def past_flag_cell_def past_sum_value_def past_fragments_def
      present_values_def agg_cell_def flag_cell_def aggregate_area_def fragments_of_def
      area_rule_def no_past_def ex_past_two_def zone_ex_def frag_ex_def exact_def)

lemma count_cell_iff:
  "count_cell qs z = Num 1 \<longleftrightarrow> (\<exists>x. recorded_count qs (unique_id z) = Num x \<and> 3 \<le> x)"
  by (simp add: count_cell_def count_rule_def split: cell.split)

lemma ex_three:
  "map (\<lambda>z. recorded_count ex_three_points (unique_id z)) ex_two_zones = [Num 1, Num 5]"
  "map (count_cell ex_three_points) ex_two_zones = [Num 0, Num 1]"
  "length (zone_points ex_three_points (Num 1)) = 3"
  "length (zone_points ex_three_points (Num 2)) = 1"
  by (simp_all add: count_cell_def recorded_count_def zone_points_def count_rule_def
      ex_three_points_def ex_two_zones_def zone_ex_def point_ex_def)







lemma past_layer_labels:
  "map flag_field (shapefiles_past p) = past_flag_fields"
  by (simp add: shapefiles_past_def past_entry_def past_flag_fields_def)

lemma group_keys_present: "group_keys (filter (\<lambda>k. k \<noteq> NaN) ks) = group_keys ks"
  by (simp add: group_keys_def)

lemma NaN_notin_group_keys: "NaN \<notin> set (group_keys ks)"
  by (simp add: group_keys_def)

lemma map_filter_key:
  "map k (filter (\<lambda>x. k x \<noteq> NaN) xs) = filter (\<lambda>c. c \<noteq> NaN) (map k xs)"
  by (induction xs) auto

lemma group_cells_usable:
  "u \<noteq> NaN \<Longrightarrow>
   group_cells (map k (filter (\<lambda>x. k x \<noteq> NaN) xs)) (map v (filter (\<lambda>x. k x \<noteq> NaN) xs)) u
   = group_cells (map k xs) (map v xs) u"
  by (induction xs) (auto simp: group_cells_def)

lemma gcol_usable:
  "gcol fp (map k (filter (\<lambda>x. k x \<noteq> NaN) xs)) (map v (filter (\<lambda>x. k x \<noteq> NaN) xs)) a
   = gcol fp (map k xs) (map v xs) a"
proof (rule ext)
  fix u
  show "gcol fp (map k (filter (\<lambda>x. k x \<noteq> NaN) xs)) (map v (filter (\<lambda>x. k x \<noteq> NaN) xs)) a u
        = gcol fp (map k xs) (map v xs) a u"
  proof (cases "u = NaN")
    case True
    then show ?thesis by (simp add: gcol_def NaN_notin_group_keys)
  next
    case False
    then show ?thesis
      by (simp add: gcol_def map_filter_key[symmetric] group_cells_usable)
         (simp add: map_filter_key group_keys_present)
  qed
qed

lemma dkeys_usable: "dkeys (usable fs) = dkeys fs"
  by (simp add: dkeys_def usable_def map_filter_key group_keys_present)

lemma dcols_usable: "dcols fp (usable fs) ff ft = dcols fp fs ff ft"
  by (simp add: dcols_def usable_def gcol_usable split: option.split)

lemma pkeys_usable:
  "group_keys (map pt_unique_id (usable_points ps)) = group_keys (map pt_unique_id ps)"
  by (simp add: usable_points_def map_filter_key group_keys_present)

lemma pcols_usable: "pcols fp (usable_points ps) = pcols fp ps"
  by (simp add: pcols_def usable_points_def gcol_usable)

lemma aggregate_area_usable: "aggregate_area fp (usable fs) u = aggregate_area fp fs u"
proof (cases "u = NaN")
  case True
  then show ?thesis by (simp add: aggregate_area_def)
next
  case False
  then have "fragments_of (usable fs) u = fragments_of fs u"
    by (auto simp: fragments_of_def usable_def intro: filter_cong)
  then show ?thesis by (simp add: aggregate_area_def)
qed

lemma recorded_count_usable: "recorded_count (usable_points ps) u = recorded_count ps u"
proof (cases "u = NaN")
  case True
  then show ?thesis by (simp add: recorded_count_def)
next
  case False
  then have "zone_points (usable_points ps) u = zone_points ps u"
    by (auto simp: zone_points_def usable_points_def intro: filter_cong)
  then show ?thesis by (simp add: recorded_count_def)
qed

lemma layer_flag_usable: "layer_flag fp zs (usable fs) = layer_flag fp zs fs"
  by (simp add: layer_flag_eq aggregate_area_usable)

lemma point_flag_col_usable: "point_flag_col fp zs (usable_points ps) = point_flag_col fp zs ps"
  by (simp add: point_flag_col_eq recorded_count_usable)

lemma past_fragments_usable: "past_fragments (usable_past p) = map usable (past_fragments p)"
  by (simp add: past_fragments_def usable_past_def)

lemma past_sum_value_usable: "past_sum_value fp (usable_past p) u = past_sum_value fp p u"
  by (simp add: past_sum_value_def past_fragments_usable o_def aggregate_area_usable)

lemma past_specs_usable: "past_specs fp (usable_past p) = past_specs fp p"
  by (simp add: past_specs_def past_fragments_def usable_past_def past_flag_fields_def
      dkeys_usable dcols_usable)

lemma past_cols_usable: "past_cols fp (usable_past p) = past_cols fp p"
  by (simp add: past_cols_def past_specs_def past_fragments_def usable_past_def
      past_flag_fields_def dkeys_usable dcols_usable)

lemma past_total_usable: "past_total fp (usable_past p) = past_total fp p"
  by (rule ext) (simp add: past_total_eq past_sum_value_usable)

lemma past_flag_usable: "past_flag fp zs (usable_past p) = past_flag fp zs p"
  by (simp add: past_flag_eq past_sum_value_usable)

lemma past_usable: "past fp zs (shapefiles_past (usable_past p)) = past fp zs (shapefiles_past p)"
  by (simp add: past_eq past_cols_usable past_total_usable past_flag_usable)

lemma present_usable:
  "present fp zs (shapefiles_present (points_table (usable_points ps)) (usable m) (usable h))
   = present fp zs (shapefiles_present (points_table ps) m h)"
  by (simp add: present_eq present_cols_def dcols_usable pcols_usable layer_flag_usable
      point_flag_col_usable)

lemma future_usable:
  "future fp zs (shapefiles_future (usable m) (usable e) (usable f))
   = future fp zs (shapefiles_future m e f)"
  by (simp add: future_eq future_cols_def dcols_usable layer_flag_usable)

lemma dissolved_past_usable:
  "ff \<in> set past_flag_fields \<Longrightarrow>
   dissolved_past fp (past_entry (usable fs) ff) = dissolved_past fp (past_entry fs ff)"
  by (simp add: dissolved_past_entry dkeys_usable dcols_usable)

lemma dissolved_past_keys:
  assumes "ff \<in> set past_flag_fields"
  shows "\<exists>d ks. dissolved_past fp (past_entry fs ff) = Inr d
           \<and> getitem d ''unique_id'' = Inr ks \<and> NaN \<notin> set ks"
proof -
  have nk: "''unique_id'' \<notin> fst ` set (dcols fp fs ff None)"
    using assms by (auto simp: dcols_def past_flag_fields_def)
  have n: "NaN \<notin> set (dkeys fs)"
    by (simp add: dkeys_def NaN_notin_group_keys)
  show ?thesis
    by (intro exI[of _ "tab (dkeys fs) (dcols fp fs ff None)"] exI[of _ "dkeys fs"] conjI
        dissolved_past_entry[OF assms] getitem_tab_key[OF nk] n)
qed

lemma present_311_usable:
  "present_311_csv fp (points_table (usable_points ps)) = present_311_csv fp (points_table ps)"
  by (simp add: present_311_csv_eq pkeys_usable pcols_usable)

lemma present_311_keys:
  "\<exists>d ks. present_311_csv fp (points_table ps) = Inr d
           \<and> getitem d ''unique_id'' = Inr ks \<and> NaN \<notin> set ks"
proof -
  have nk: "''unique_id'' \<notin> fst ` set (pcols fp ps)"
    by (simp add: pcols_def)
  show ?thesis
    by (intro exI[of _ "tab (group_keys (map pt_unique_id ps)) (pcols fp ps)"]
        exI[of _ "group_keys (map pt_unique_id ps)"] conjI present_311_csv_eq
        getitem_tab_key[OF nk] NaN_notin_group_keys)
qed

lemma idless_zone_cells:
  "unique_id z = NaN \<Longrightarrow>
   agg_cell fp fs z = NaN \<and> flag_cell fp fs z = Num 0 \<and> count_cell ps z = Num 0
   \<and> past_sum_cell fp p z = NaN \<and> past_flag_cell fp p z = Num 0"
  by (simp add: agg_cell_def flag_cell_def count_cell_def past_sum_cell_def past_flag_cell_def
      aggregate_area_def area_rule_def recorded_count_def count_rule_def past_sum_value_def
      past_fragments_def)

lemma past_printed_usable:
  "past_printed out (shapefiles_past (usable_past p)) = past_printed out (shapefiles_past p)"
  by (simp add: past_printed_def shapefiles_past_def past_entry_def)

lemma present_printed_usable:
  "present_printed out (shapefiles_present (points_table (usable_points ps)) (usable m) (usable h))
   = present_printed out (shapefiles_present (points_table ps) m h)"
  by (simp add: present_printed_def shapefiles_present_def)

lemma past_rows:
  "\<exists>T. past fp zs (shapefiles_past p) = Inr T
     \<and> getitem T ''unique_id'' = Inr (map unique_id zs)
     \<and> getitem T ''BZ_past'' = Inr (map (past_flag_cell fp p) zs)"
  using past_result[of fp zs p] by blast

lemma present_rows:
  "\<exists>T. present fp zs (shapefiles_present (points_table ps) m h) = Inr T
     \<and> getitem T ''unique_id'' = Inr (map unique_id zs)
     \<and> getitem T ''depcaAfg'' = Inr (map (count_cell ps) zs)
     \<and> getitem T ''mod_cAfg'' = Inr (map (flag_cell fp m) zs)
     \<and> getitem T ''100Afg'' = Inr (map (flag_cell fp h) zs)"
  using present_result[of fp zs ps m h] by blast

lemma future_rows:
  "\<exists>T. future fp zs (shapefiles_future m e f) = Inr T
     \<and> getitem T ''unique_id'' = Inr (map unique_id zs)
     \<and> getitem T ''mod_20Afg'' = Inr (map (flag_cell fp m) zs)
     \<and> getitem T ''ext_20Afg'' = Inr (map (flag_cell fp e) zs)
     \<and> getitem T ''500Afg'' = Inr (map (flag_cell fp f) zs)"
  using future_result[of fp zs m e f] by blast

lemma ex_idless_count:
  "length (filter (\<lambda>f. frag_unique_id f = NaN) (past_beaches ex_past_idless)) = 1"
  "length (filter (\<lambda>f. frag_unique_id f = NaN) (past_beaches ex_past_beach)) = 0"
  "usable_past ex_past_idless = ex_past_beach"
  "usable_past ex_past_beach = ex_past_beach"
  by (simp_all add: ex_past_idless_def ex_past_beach_def no_past_def frag_idless_def frag_ex_def
      usable_past_def usable_def)

section \<open>The claims\<close>

text \<open>
  C9. In the present script, when the 311 layer has no \<^verbatim>\<open>Point_Coun\<close> attribute the run
  stops with an error in the aggregation of the point layer, after the polygon layers have
  been aggregated: the aggregation names \<^verbatim>\<open>Point_Coun\<close> although the column filter has
  removed it. No final table is produced, so the guard that would leave the point flag at 0
  when the merged table has no \<^verbatim>\<open>Point_Coun\<close> column is not reached with such a layer.
\<close>

theorem point_layer_without_count_aborts:
  assumes "''Point_Coun'' \<notin> set (names p311)"
  shows "\<exists>ds e. present_loop fp 1 (tl (shapefiles_present p311 m h)) = Inr ds
               \<and> present_311_csv fp p311 = Inl e
               \<and> present fp zs (shapefiles_present p311 m h) = Inl e"
proof -
  define sub where "sub = select p311 (filter (\<lambda>c. c \<in> set (names p311))
                [''unique_id'', ''depcall'', ''Point_Coun''])"
  have "''Point_Coun'' \<notin> set (names sub)"
    using assms names_select unfolding sub_def by blast
  then have g: "getitem sub ''Point_Coun'' = Inl (KeyError ''Point_Coun'')"
    by (rule getitem_absent)
  have c: "present_311_csv fp p311
           = groupby_agg fp sub ''unique_id'' [(''depcall'', AggFirst), (''Point_Coun'', AggFirst)]"
    unfolding present_311_csv_def Let_def sub_def ..
  have "\<exists>e. present_311_csv fp p311 = Inl e"
    unfolding c groupby_agg_def
    by (cases "getitem sub ''unique_id''"; cases "getitem sub ''depcall''")
       (simp_all add: bindE_def g)
  then obtain e where e: "present_311_csv fp p311 = Inl e" ..
  have "present fp zs (shapefiles_present p311 m h) = Inl e"
    unfolding present_def present_loop_eq
    by (simp add: bindE_def e shapefiles_present_def)
  with e present_loop_eq show ?thesis by blast
qed

theorem point_layer_without_count_aborts_witness:
  "present exact [\<lparr>unique_id = Num 1, geometry = 1000\<rparr>]
     (shapefiles_present
        [(''unique_id'', [Num 1, Num 1]), (''depcall'', [Num 1, Num 1]), (''geometry'', [Num 0, Num 0])]
        [] [])
   = Inl (KeyError ''Point_Coun'')"
proof -
  let ?p = "[(''unique_id'', [Num 1, Num 1]), (''depcall'', [Num 1, Num 1]), (''geometry'', [Num 0, Num 0])]"
  have h: "''Point_Coun'' \<notin> set (names ?p)" by (simp add: names_def)
  have c: "present_311_csv exact ?p = Inl (KeyError ''Point_Coun'')"
    by (simp add: present_311_csv_def names_def select_def groupby_agg_def getitem_def bindE_def)
  show ?thesis
    using point_layer_without_count_aborts[OF h, of exact "[]" "[]" "[\<lparr>unique_id = Num 1, geometry = 1000\<rparr>]"] c
    by auto
qed

text \<open>
  C2, as amended. In the present and the future script, the flag of an area-based layer is
  1 for a zone exactly when the zone has an aggregate for the layer and that aggregate is at
  least 0.10 times the zone's area, and 0 otherwise; the aggregate is the sum of the zone's
  fragment areas and the bound is the product, both as floating-point arithmetic computes
  them. The comparison is inclusive: an aggregate equal to the computed bound gives 1. The
  same constant is used for every layer. The past script computes no per-layer flag: its
  final table has the ten area columns, \<^verbatim>\<open>past_sum\<close> and \<^verbatim>\<open>BZ_past\<close> only.
\<close>

theorem area_flag_threshold:
  "(\<exists>T. future fp zs (shapefiles_future m e f) = Inr T
      \<and> getitem T ''area'' = Inr (map (\<lambda>z. Num (geometry z)) zs)
      \<and> getitem T ''mod_20A'' = Inr (map (agg_cell fp m) zs)
      \<and> getitem T ''mod_20Afg'' = Inr (map (flag_cell fp m) zs)
      \<and> getitem T ''ext_20A'' = Inr (map (agg_cell fp e) zs)
      \<and> getitem T ''ext_20Afg'' = Inr (map (flag_cell fp e) zs)
      \<and> getitem T ''500A'' = Inr (map (agg_cell fp f) zs)
      \<and> getitem T ''500Afg'' = Inr (map (flag_cell fp f) zs))
   \<and> (\<exists>T. present fp zs (shapefiles_present (points_table ps) m' h) = Inr T
      \<and> getitem T ''area'' = Inr (map (\<lambda>z. Num (geometry z)) zs)
      \<and> getitem T ''mod_cA'' = Inr (map (agg_cell fp m') zs)
      \<and> getitem T ''mod_cAfg'' = Inr (map (flag_cell fp m') zs)
      \<and> getitem T ''100A'' = Inr (map (agg_cell fp h) zs)
      \<and> getitem T ''100Afg'' = Inr (map (flag_cell fp h) zs))
   \<and> (\<exists>T. past fp zs (shapefiles_past p) = Inr T
      \<and> names T = [''unique_id'', ''geometry'', ''area'', ''beachA'', ''beaches'', ''rivA'',
          ''river'', ''fresh_weA'', ''fresh_wetl'', ''mariA'', ''marine'', ''poA'', ''pond'',
          ''saltmarA'', ''saltmarsh'', ''streaA'', ''streams'', ''dunA'', ''dunes'', ''tidal_crA'',
          ''tidal_cree'', ''int_streA'', ''int_stream'', ''past_sum'', ''BZ_past''])
   \<and> (\<forall>fs z. flag_cell fp fs z = Num 1
        \<longleftrightarrow> (\<exists>x. aggregate_area fp fs (unique_id z) = Some x
                 \<and> fmul fp (10 / 100) (geometry z) \<le> x))
   \<and> (\<forall>fs z. flag_cell fp fs z = Num 1 \<or> flag_cell fp fs z = Num 0)
   \<and> (\<forall>fs z. aggregate_area fp fs (unique_id z) = Some (fmul fp (10 / 100) (geometry z))
        \<longrightarrow> flag_cell fp fs z = Num 1)
   \<and> (\<forall>fs z x. aggregate_area fp fs (unique_id z) = Some x
        \<longleftrightarrow> unique_id z \<noteq> NaN \<and> fragments_of fs (unique_id z) \<noteq> []
            \<and> x = gsum fp (map frag_geometry (fragments_of fs (unique_id z))))"
proof -
  have a: "\<exists>T. future fp zs (shapefiles_future m e f) = Inr T
      \<and> getitem T ''area'' = Inr (map (\<lambda>z. Num (geometry z)) zs)
      \<and> getitem T ''mod_20A'' = Inr (map (agg_cell fp m) zs)
      \<and> getitem T ''mod_20Afg'' = Inr (map (flag_cell fp m) zs)
      \<and> getitem T ''ext_20A'' = Inr (map (agg_cell fp e) zs)
      \<and> getitem T ''ext_20Afg'' = Inr (map (flag_cell fp e) zs)
      \<and> getitem T ''500A'' = Inr (map (agg_cell fp f) zs)
      \<and> getitem T ''500Afg'' = Inr (map (flag_cell fp f) zs)"
    using future_result[of fp zs m e f] by blast
  have b: "\<exists>T. present fp zs (shapefiles_present (points_table ps) m' h) = Inr T
      \<and> getitem T ''area'' = Inr (map (\<lambda>z. Num (geometry z)) zs)
      \<and> getitem T ''mod_cA'' = Inr (map (agg_cell fp m') zs)
      \<and> getitem T ''mod_cAfg'' = Inr (map (flag_cell fp m') zs)
      \<and> getitem T ''100A'' = Inr (map (agg_cell fp h) zs)
      \<and> getitem T ''100Afg'' = Inr (map (flag_cell fp h) zs)"
    using present_result[of fp zs ps m' h] by blast
  have q: "\<exists>T. past fp zs (shapefiles_past p) = Inr T
      \<and> names T = [''unique_id'', ''geometry'', ''area'', ''beachA'', ''beaches'', ''rivA'',
          ''river'', ''fresh_weA'', ''fresh_wetl'', ''mariA'', ''marine'', ''poA'', ''pond'',
          ''saltmarA'', ''saltmarsh'', ''streaA'', ''streams'', ''dunA'', ''dunes'', ''tidal_crA'',
          ''tidal_cree'', ''int_streA'', ''int_stream'', ''past_sum'', ''BZ_past'']"
    using past_result[of fp zs p] by blast
  have c: "\<forall>fs z. flag_cell fp fs z = Num 1
        \<longleftrightarrow> (\<exists>x. aggregate_area fp fs (unique_id z) = Some x
                 \<and> fmul fp (10 / 100) (geometry z) \<le> x)"
    by (simp add: flag_cell_def area_rule_iff)
  have d: "\<forall>fs z. flag_cell fp fs z = Num 1 \<or> flag_cell fp fs z = Num 0"
    using flag_cell_binary[of fp] by blast
  have e: "\<forall>fs z. aggregate_area fp fs (unique_id z) = Some (fmul fp (10 / 100) (geometry z))
        \<longrightarrow> flag_cell fp fs z = Num 1"
    by (simp add: flag_cell_def area_rule_def)
  have g: "\<forall>fs z x. aggregate_area fp fs (unique_id z) = Some x
        \<longleftrightarrow> unique_id z \<noteq> NaN \<and> fragments_of fs (unique_id z) \<noteq> []
            \<and> x = gsum fp (map frag_geometry (fragments_of fs (unique_id z)))"
    by (auto simp: aggregate_area_def)
  show ?thesis
    by (intro conjI a b q c d e g)
qed

theorem area_flag_threshold_witness:
  "(\<exists>T. future exact ex_zones (shapefiles_future ex_frags [] []) = Inr T
      \<and> getitem T ''area'' = Inr [Num 1000, Num 1000, Num 1000, Num 1000]
      \<and> getitem T ''mod_20A'' = Inr [Num 110, Num 100, Num 99, NaN]
      \<and> getitem T ''mod_20Afg'' = Inr [Num 1, Num 1, Num 0, Num 0]
      \<and> getitem T ''500Afg'' = Inr [Num 0, Num 0, Num 0, Num 0])
   \<and> (\<exists>T. present exact ex_zones (shapefiles_present (points_table ex_points) [] ex_frags) = Inr T
      \<and> getitem T ''100A'' = Inr [Num 110, Num 100, Num 99, NaN]
      \<and> getitem T ''100Afg'' = Inr [Num 1, Num 1, Num 0, Num 0])"
proof -
  have z: "map (\<lambda>z. Num (geometry z)) ex_zones = [Num 1000, Num 1000, Num 1000, Num 1000]"
    by (simp add: ex_zones_def zone_ex_def)
  note t = area_flag_threshold[of exact ex_zones ex_frags "[]" "[]" ex_points "[]" ex_frags no_past,
      unfolded ex_aggregates z]
  from t[THEN conjunct1]
  have a: "\<exists>T. future exact ex_zones (shapefiles_future ex_frags [] []) = Inr T
      \<and> getitem T ''area'' = Inr [Num 1000, Num 1000, Num 1000, Num 1000]
      \<and> getitem T ''mod_20A'' = Inr [Num 110, Num 100, Num 99, NaN]
      \<and> getitem T ''mod_20Afg'' = Inr [Num 1, Num 1, Num 0, Num 0]
      \<and> getitem T ''500Afg'' = Inr [Num 0, Num 0, Num 0, Num 0]"
    by blast
  from t[THEN conjunct2, THEN conjunct1]
  have b: "\<exists>T. present exact ex_zones (shapefiles_present (points_table ex_points) [] ex_frags) = Inr T
      \<and> getitem T ''100A'' = Inr [Num 110, Num 100, Num 99, NaN]
      \<and> getitem T ''100Afg'' = Inr [Num 1, Num 1, Num 0, Num 0]"
    by blast
  show ?thesis
    by (intro conjI a b)
qed

text \<open>The claim as stated fails for the past script: a zone of area 1000 that meets the
  beach layer in a fragment of area 150 has the aggregate 150 in \<^verbatim>\<open>beachA\<close>, above a
  tenth of its area, and the final table has no flag column for the layer.\<close>

theorem past_layer_flag_counterexample:
  "\<exists>T. past exact [zone_ex 1 1000] (shapefiles_past ex_past_beach) = Inr T
     \<and> getitem T ''area'' = Inr [Num 1000]
     \<and> getitem T ''beachA'' = Inr [Num 150]
     \<and> getitem T ''beachAfg'' = Inl (KeyError ''beachAfg'')
     \<and> names T = [''unique_id'', ''geometry'', ''area'', ''beachA'', ''beaches'', ''rivA'',
          ''river'', ''fresh_weA'', ''fresh_wetl'', ''mariA'', ''marine'', ''poA'', ''pond'',
          ''saltmarA'', ''saltmarsh'', ''streaA'', ''streams'', ''dunA'', ''dunes'', ''tidal_crA'',
          ''tidal_cree'', ''int_streA'', ''int_stream'', ''past_sum'', ''BZ_past'']"
proof -
  obtain T where T: "past exact [zone_ex 1 1000] (shapefiles_past ex_past_beach) = Inr T"
    "names T = [''unique_id'', ''geometry'', ''area'', ''beachA'', ''beaches'', ''rivA'',
          ''river'', ''fresh_weA'', ''fresh_wetl'', ''mariA'', ''marine'', ''poA'', ''pond'',
          ''saltmarA'', ''saltmarsh'', ''streaA'', ''streams'', ''dunA'', ''dunes'', ''tidal_crA'',
          ''tidal_cree'', ''int_streA'', ''int_stream'', ''past_sum'', ''BZ_past'']"
    "getitem T ''area'' = Inr (map (\<lambda>z. Num (geometry z)) [zone_ex 1 1000])"
    "\<forall>j < 10. getitem T (new_field_name (past_flag_fields ! j))
                    = Inr (map (agg_cell exact (past_fragments ex_past_beach ! j)) [zone_ex 1 1000])"
    using past_result[of exact "[zone_ex 1 1000]" ex_past_beach] by blast
  have a: "getitem T ''area'' = Inr [Num 1000]"
    using T(3) by (simp add: zone_ex_def)
  have n: "new_field_name (past_flag_fields ! 0) = ''beachA''"
    by (simp add: past_flag_fields_def)
  have v: "map (agg_cell exact (past_fragments ex_past_beach ! 0)) [zone_ex 1 1000] = [Num 150]"
    by (simp add: past_fragments_def ex_past_beach_def no_past_def agg_cell_def aggregate_area_def
        fragments_of_def zone_ex_def frag_ex_def exact_def)
  have "(0::nat) < 10" by simp
  then have "getitem T (new_field_name (past_flag_fields ! 0))
             = Inr (map (agg_cell exact (past_fragments ex_past_beach ! 0)) [zone_ex 1 1000])"
    using T(4) by blast
  then have b: "getitem T ''beachA'' = Inr [Num 150]"
    unfolding n v .
  have "''beachAfg'' \<notin> set (names T)"
    unfolding T(2) by simp
  then have c: "getitem T ''beachAfg'' = Inl (KeyError ''beachAfg'')"
    by (rule getitem_absent)
  show ?thesis
    by (intro exI[of _ T] conjI T(1) a b c T(2))
qed

text \<open>
  C4. A zone whose aggregate for a layer is absent has a missing value in the layer's area
  column of the final table and the flag 0 for that layer: the run does not fail and the flag
  is not missing. The same holds for the point flag when no \<^verbatim>\<open>Point_Coun\<close> value is
  recorded for the zone, and for \<^verbatim>\<open>BZ_past\<close> when the zone has an aggregate in no layer.
\<close>

theorem absent_aggregate_flag_zero:
  "(\<exists>T. future fp zs (shapefiles_future m e f) = Inr T
      \<and> getitem T ''mod_20A'' = Inr (map (agg_cell fp m) zs)
      \<and> getitem T ''mod_20Afg'' = Inr (map (flag_cell fp m) zs)
      \<and> getitem T ''ext_20A'' = Inr (map (agg_cell fp e) zs)
      \<and> getitem T ''ext_20Afg'' = Inr (map (flag_cell fp e) zs)
      \<and> getitem T ''500A'' = Inr (map (agg_cell fp f) zs)
      \<and> getitem T ''500Afg'' = Inr (map (flag_cell fp f) zs))
   \<and> (\<exists>T. present fp zs (shapefiles_present (points_table ps) m' h) = Inr T
      \<and> getitem T ''mod_cA'' = Inr (map (agg_cell fp m') zs)
      \<and> getitem T ''mod_cAfg'' = Inr (map (flag_cell fp m') zs)
      \<and> getitem T ''100A'' = Inr (map (agg_cell fp h) zs)
      \<and> getitem T ''100Afg'' = Inr (map (flag_cell fp h) zs)
      \<and> getitem T ''Point_Coun'' = Inr (map (\<lambda>z. recorded_count ps (unique_id z)) zs)
      \<and> getitem T ''depcaAfg'' = Inr (map (count_cell ps) zs))
   \<and> (\<exists>T. past fp zs (shapefiles_past p) = Inr T
      \<and> getitem T ''past_sum'' = Inr (map (past_sum_cell fp p) zs)
      \<and> getitem T ''BZ_past'' = Inr (map (past_flag_cell fp p) zs))
   \<and> (\<forall>fs z. aggregate_area fp fs (unique_id z) = None
         \<longrightarrow> agg_cell fp fs z = NaN \<and> flag_cell fp fs z = Num 0)
   \<and> (\<forall>qs z. recorded_count qs (unique_id z) = NaN \<longrightarrow> count_cell qs z = Num 0)
   \<and> (\<forall>q z. past_sum_value fp q (unique_id z) = None
         \<longrightarrow> past_sum_cell fp q z = NaN \<and> past_flag_cell fp q z = Num 0)"
proof -
  have a: "\<exists>T. future fp zs (shapefiles_future m e f) = Inr T
      \<and> getitem T ''mod_20A'' = Inr (map (agg_cell fp m) zs)
      \<and> getitem T ''mod_20Afg'' = Inr (map (flag_cell fp m) zs)
      \<and> getitem T ''ext_20A'' = Inr (map (agg_cell fp e) zs)
      \<and> getitem T ''ext_20Afg'' = Inr (map (flag_cell fp e) zs)
      \<and> getitem T ''500A'' = Inr (map (agg_cell fp f) zs)
      \<and> getitem T ''500Afg'' = Inr (map (flag_cell fp f) zs)"
    using future_result[of fp zs m e f] by blast
  have b: "\<exists>T. present fp zs (shapefiles_present (points_table ps) m' h) = Inr T
      \<and> getitem T ''mod_cA'' = Inr (map (agg_cell fp m') zs)
      \<and> getitem T ''mod_cAfg'' = Inr (map (flag_cell fp m') zs)
      \<and> getitem T ''100A'' = Inr (map (agg_cell fp h) zs)
      \<and> getitem T ''100Afg'' = Inr (map (flag_cell fp h) zs)
      \<and> getitem T ''Point_Coun'' = Inr (map (\<lambda>z. recorded_count ps (unique_id z)) zs)
      \<and> getitem T ''depcaAfg'' = Inr (map (count_cell ps) zs)"
    using present_result[of fp zs ps m' h] by blast
  have c: "\<exists>T. past fp zs (shapefiles_past p) = Inr T
      \<and> getitem T ''past_sum'' = Inr (map (past_sum_cell fp p) zs)
      \<and> getitem T ''BZ_past'' = Inr (map (past_flag_cell fp p) zs)"
    using past_result[of fp zs p] by blast
  have d: "\<forall>fs z. aggregate_area fp fs (unique_id z) = None
         \<longrightarrow> agg_cell fp fs z = NaN \<and> flag_cell fp fs z = Num 0"
    by (simp add: agg_cell_def flag_cell_def area_rule_def)
  have e: "\<forall>qs z. recorded_count qs (unique_id z) = NaN \<longrightarrow> count_cell qs z = Num 0"
    by (simp add: count_cell_def count_rule_def)
  have g: "\<forall>q z. past_sum_value fp q (unique_id z) = None
         \<longrightarrow> past_sum_cell fp q z = NaN \<and> past_flag_cell fp q z = Num 0"
    by (simp add: past_sum_cell_def past_flag_cell_def area_rule_def)
  show ?thesis
    by (intro conjI a b c d e g)
qed

theorem absent_aggregate_flag_zero_witness:
  "(\<exists>T. future exact ex_zones (shapefiles_future ex_frags [] []) = Inr T
      \<and> getitem T ''mod_20A'' = Inr [Num 110, Num 100, Num 99, NaN]
      \<and> getitem T ''mod_20Afg'' = Inr [Num 1, Num 1, Num 0, Num 0])
   \<and> (\<exists>T. present exact ex_zones (shapefiles_present (points_table ex_points) [] ex_frags) = Inr T
      \<and> getitem T ''Point_Coun'' = Inr [NaN, NaN, Num 2, Num 3]
      \<and> getitem T ''depcaAfg'' = Inr [Num 0, Num 0, Num 0, Num 1])
   \<and> (\<exists>T. past exact ex_zones (shapefiles_past (no_past\<lparr>past_beaches := ex_frags\<rparr>)) = Inr T
      \<and> getitem T ''past_sum'' = Inr [Num 110, Num 100, Num 99, NaN]
      \<and> getitem T ''BZ_past'' = Inr [Num 1, Num 1, Num 0, Num 0])
   \<and> aggregate_area exact ex_frags (unique_id (ex_zones ! 3)) = None"
proof -
  note t = absent_aggregate_flag_zero[of exact ex_zones ex_frags "[]" "[]" ex_points "[]" ex_frags
        "no_past\<lparr>past_beaches := ex_frags\<rparr>", unfolded ex_aggregates ex_counts ex_past]
  have h: "aggregate_area exact ex_frags (unique_id (ex_zones ! 3)) = None"
    by (simp add: aggregate_area_def fragments_of_def ex_frags_def ex_zones_def zone_ex_def
        frag_ex_def exact_def)
  from t[THEN conjunct1] have a: "\<exists>T. future exact ex_zones (shapefiles_future ex_frags [] []) = Inr T
      \<and> getitem T ''mod_20A'' = Inr [Num 110, Num 100, Num 99, NaN]
      \<and> getitem T ''mod_20Afg'' = Inr [Num 1, Num 1, Num 0, Num 0]"
    by blast
  from t[THEN conjunct2, THEN conjunct1]
  have b: "\<exists>T. present exact ex_zones (shapefiles_present (points_table ex_points) [] ex_frags) = Inr T
      \<and> getitem T ''Point_Coun'' = Inr [NaN, NaN, Num 2, Num 3]
      \<and> getitem T ''depcaAfg'' = Inr [Num 0, Num 0, Num 0, Num 1]"
    by blast
  from t[THEN conjunct2, THEN conjunct2, THEN conjunct1]
  have c: "\<exists>T. past exact ex_zones (shapefiles_past (no_past\<lparr>past_beaches := ex_frags\<rparr>)) = Inr T
      \<and> getitem T ''past_sum'' = Inr [Num 110, Num 100, Num 99, NaN]
      \<and> getitem T ''BZ_past'' = Inr [Num 1, Num 1, Num 0, Num 0]"
    by blast
  show ?thesis
    by (intro conjI a b c h)
qed

text \<open>
  C10. In the final tables of the present and the future script every per-layer flag column
  and the union flag column has one cell per zone, and each cell is the number 0 or the
  number 1, never a missing value.
\<close>

theorem flags_are_binary:
  "(\<exists>T. future fp zs (shapefiles_future m e f) = Inr T
      \<and> (\<forall>n \<in> set [''mod_20Afg'', ''ext_20Afg'', ''500Afg'', ''BZ_future''].
            \<exists>col. getitem T n = Inr col \<and> length col = length zs
                  \<and> set col \<subseteq> {Num 0, Num 1}))
   \<and> (\<exists>T. present fp zs (shapefiles_present (points_table ps) m' h) = Inr T
      \<and> (\<forall>n \<in> set [''depcaAfg'', ''mod_cAfg'', ''100Afg'', ''BZ_present''].
            \<exists>col. getitem T n = Inr col \<and> length col = length zs
                  \<and> set col \<subseteq> {Num 0, Num 1}))"
proof -
  have r: "\<exists>col. x = Inr col \<and> length col = length zs \<and> set col \<subseteq> {Num 0, Num 1}"
    if "x = Inr (map g zs)" "\<And>z. g z = Num 0 \<or> g z = Num 1" for x g
    using that(1) binary_map[of g zs, OF that(2)] by blast
  obtain F where F: "future fp zs (shapefiles_future m e f) = Inr F"
    "getitem F ''mod_20Afg'' = Inr (map (flag_cell fp m) zs)"
    "getitem F ''ext_20Afg'' = Inr (map (flag_cell fp e) zs)"
    "getitem F ''500Afg'' = Inr (map (flag_cell fp f) zs)"
    "getitem F ''BZ_future''
       = Inr (map (\<lambda>z. Num (union_rule (flag_cell fp m z) (flag_cell fp e z) (flag_cell fp f z))) zs)"
    using future_result[of fp zs m e f] by blast
  obtain P where P: "present fp zs (shapefiles_present (points_table ps) m' h) = Inr P"
    "getitem P ''depcaAfg'' = Inr (map (count_cell ps) zs)"
    "getitem P ''mod_cAfg'' = Inr (map (flag_cell fp m') zs)"
    "getitem P ''100Afg'' = Inr (map (flag_cell fp h) zs)"
    "getitem P ''BZ_present''
       = Inr (map (\<lambda>z. Num (union_rule (count_cell ps z) (flag_cell fp m' z) (flag_cell fp h z))) zs)"
    using present_result[of fp zs ps m' h] by blast
  have a: "\<forall>n \<in> set [''mod_20Afg'', ''ext_20Afg'', ''500Afg'', ''BZ_future''].
            \<exists>col. getitem F n = Inr col \<and> length col = length zs \<and> set col \<subseteq> {Num 0, Num 1}"
    using r[OF F(2) flag_cell_binary] r[OF F(3) flag_cell_binary] r[OF F(4) flag_cell_binary]
      r[OF F(5) union_binary]
    by (simp only: list.set ball_simps)
  have b: "\<forall>n \<in> set [''depcaAfg'', ''mod_cAfg'', ''100Afg'', ''BZ_present''].
            \<exists>col. getitem P n = Inr col \<and> length col = length zs \<and> set col \<subseteq> {Num 0, Num 1}"
    using r[OF P(2) count_cell_binary] r[OF P(3) flag_cell_binary] r[OF P(4) flag_cell_binary]
      r[OF P(5) union_binary]
    by (simp only: list.set ball_simps)
  show ?thesis
    by (intro conjI exI[of _ F] exI[of _ P] F(1) P(1) a b)
qed

theorem flags_are_binary_witness:
  "(\<exists>T. future exact ex_zones (shapefiles_future ex_frags [] []) = Inr T
      \<and> (\<exists>col. getitem T ''BZ_future'' = Inr col \<and> length col = 4
                  \<and> set col \<subseteq> {Num 0, Num 1}))
   \<and> (\<exists>T. present exact ex_zones (shapefiles_present (points_table ex_points) [] ex_frags) = Inr T
      \<and> (\<exists>col. getitem T ''depcaAfg'' = Inr col \<and> length col = 4
                  \<and> set col \<subseteq> {Num 0, Num 1}))"
proof -
  note t = flags_are_binary[of exact ex_zones ex_frags "[]" "[]" ex_points "[]" ex_frags]
  have l: "length ex_zones = 4" by (simp add: ex_zones_def)
  from t[THEN conjunct1] obtain F where F:
    "future exact ex_zones (shapefiles_future ex_frags [] []) = Inr F"
    "\<forall>n \<in> set [''mod_20Afg'', ''ext_20Afg'', ''500Afg'', ''BZ_future''].
       \<exists>col. getitem F n = Inr col \<and> length col = length ex_zones \<and> set col \<subseteq> {Num 0, Num 1}"
    by blast
  from t[THEN conjunct2] obtain P where P:
    "present exact ex_zones (shapefiles_present (points_table ex_points) [] ex_frags) = Inr P"
    "\<forall>n \<in> set [''depcaAfg'', ''mod_cAfg'', ''100Afg'', ''BZ_present''].
       \<exists>col. getitem P n = Inr col \<and> length col = length ex_zones \<and> set col \<subseteq> {Num 0, Num 1}"
    by blast
  have a: "\<exists>col. getitem F ''BZ_future'' = Inr col \<and> length col = 4 \<and> set col \<subseteq> {Num 0, Num 1}"
    using F(2) unfolding l by (simp only: list.set ball_simps)
  have b: "\<exists>col. getitem P ''depcaAfg'' = Inr col \<and> length col = 4 \<and> set col \<subseteq> {Num 0, Num 1}"
    using P(2) unfolding l by (simp only: list.set ball_simps)
  show ?thesis
    by (intro conjI exI[of _ F] exI[of _ P] F(1) P(1) a b)
qed

text \<open>
  C3. For every list of atomic zones, the final table of each of the three scripts has the
  zones' \<^verbatim>\<open>unique_id\<close> column unchanged, in the zones' order, and every column has one
  cell per zone: each zone has exactly one row whether or not it overlapped any layer. When
  the zones' ids are pairwise different, each id occurs in exactly one row.
\<close>

theorem one_row_per_zone:
  "(\<exists>T. past fp zs (shapefiles_past p) = Inr T
      \<and> getitem T ''unique_id'' = Inr (map unique_id zs)
      \<and> (\<forall>c \<in> set T. length (snd c) = length zs))
   \<and> (\<exists>T. present fp zs (shapefiles_present (points_table ps) m h) = Inr T
      \<and> getitem T ''unique_id'' = Inr (map unique_id zs)
      \<and> (\<forall>c \<in> set T. length (snd c) = length zs))
   \<and> (\<exists>T. future fp zs (shapefiles_future m' e f) = Inr T
      \<and> getitem T ''unique_id'' = Inr (map unique_id zs)
      \<and> (\<forall>c \<in> set T. length (snd c) = length zs))
   \<and> (distinct (map unique_id zs)
        \<longrightarrow> (\<forall>z \<in> set zs. count_list (map unique_id zs) (unique_id z) = 1))"
proof -
  have a: "\<exists>T. past fp zs (shapefiles_past p) = Inr T
      \<and> getitem T ''unique_id'' = Inr (map unique_id zs)
      \<and> (\<forall>c \<in> set T. length (snd c) = length zs)"
    using past_result[of fp zs p] by blast
  have b: "\<exists>T. present fp zs (shapefiles_present (points_table ps) m h) = Inr T
      \<and> getitem T ''unique_id'' = Inr (map unique_id zs)
      \<and> (\<forall>c \<in> set T. length (snd c) = length zs)"
    using present_result[of fp zs ps m h] by blast
  have c: "\<exists>T. future fp zs (shapefiles_future m' e f) = Inr T
      \<and> getitem T ''unique_id'' = Inr (map unique_id zs)
      \<and> (\<forall>c \<in> set T. length (snd c) = length zs)"
    using future_result[of fp zs m' e f] by blast
  have d: "distinct (map unique_id zs)
        \<longrightarrow> (\<forall>z \<in> set zs. count_list (map unique_id zs) (unique_id z) = 1)"
  proof (intro impI ballI)
    fix z assume "distinct (map unique_id zs)" "z \<in> set zs"
    then show "count_list (map unique_id zs) (unique_id z) = 1"
      by (intro count_list_distinct) simp_all
  qed
  show ?thesis
    by (intro conjI a b c d)
qed

theorem one_row_per_zone_witness:
  "(\<exists>T. past exact ex_zones (shapefiles_past no_past) = Inr T
      \<and> getitem T ''unique_id'' = Inr [Num 1, Num 2, Num 3, Num 4])
   \<and> (\<exists>T. present exact ex_zones (shapefiles_present (points_table []) [] []) = Inr T
      \<and> getitem T ''unique_id'' = Inr [Num 1, Num 2, Num 3, Num 4])
   \<and> (\<exists>T. future exact ex_zones (shapefiles_future ex_frags [] []) = Inr T
      \<and> getitem T ''unique_id'' = Inr [Num 1, Num 2, Num 3, Num 4])
   \<and> count_list (map unique_id ex_zones) (Num 4) = 1"
proof -
  have u: "map unique_id ex_zones = [Num 1, Num 2, Num 3, Num 4]"
    by (simp add: ex_zones_def zone_ex_def)
  note t = one_row_per_zone[of exact ex_zones no_past "[]" "[]" "[]" ex_frags "[]" "[]", unfolded u]
  from t[THEN conjunct1] have a: "\<exists>T. past exact ex_zones (shapefiles_past no_past) = Inr T
      \<and> getitem T ''unique_id'' = Inr [Num 1, Num 2, Num 3, Num 4]"
    by blast
  from t[THEN conjunct2, THEN conjunct1]
  have b: "\<exists>T. present exact ex_zones (shapefiles_present (points_table []) [] []) = Inr T
      \<and> getitem T ''unique_id'' = Inr [Num 1, Num 2, Num 3, Num 4]"
    by blast
  from t[THEN conjunct2, THEN conjunct2, THEN conjunct1]
  have c: "\<exists>T. future exact ex_zones (shapefiles_future ex_frags [] []) = Inr T
      \<and> getitem T ''unique_id'' = Inr [Num 1, Num 2, Num 3, Num 4]"
    by blast
  have "zone_ex 4 1000 \<in> set ex_zones" by (simp add: ex_zones_def)
  moreover have "distinct [Num 1, Num 2, Num 3, Num (4::real)]" by simp
  ultimately have d: "count_list [Num 1, Num 2, Num 3, Num 4] (unique_id (zone_ex 4 1000)) = 1"
    using t[THEN conjunct2, THEN conjunct2, THEN conjunct2] by blast
  show ?thesis
    using a b c d unfolding u by (simp add: zone_ex_def)
qed

text \<open>
  C1, as amended. In the present and the future script the epoch flag of a zone is the
  logical OR of the zone's three per-layer flags: 1 when at least one of them is 1, else 0;
  flags are not summed or weighted. The past script has no per-layer flags: \<^verbatim>\<open>BZ_past\<close>
  is 1 exactly when the zone has an aggregate in some layer and the row sum of its aggregates
  over the ten layers is at least 0.10 times the zone's area (sum and product as
  floating-point arithmetic computes them).
\<close>

theorem epoch_flag_rule:
  "(\<exists>T. future fp zs (shapefiles_future m e f) = Inr T
      \<and> getitem T ''mod_20Afg'' = Inr (map (flag_cell fp m) zs)
      \<and> getitem T ''ext_20Afg'' = Inr (map (flag_cell fp e) zs)
      \<and> getitem T ''500Afg'' = Inr (map (flag_cell fp f) zs)
      \<and> getitem T ''BZ_future''
          = Inr (map (\<lambda>z. Num (union_rule (flag_cell fp m z) (flag_cell fp e z) (flag_cell fp f z))) zs))
   \<and> (\<exists>T. present fp zs (shapefiles_present (points_table ps) m' h) = Inr T
      \<and> getitem T ''depcaAfg'' = Inr (map (count_cell ps) zs)
      \<and> getitem T ''mod_cAfg'' = Inr (map (flag_cell fp m') zs)
      \<and> getitem T ''100Afg'' = Inr (map (flag_cell fp h) zs)
      \<and> getitem T ''BZ_present''
          = Inr (map (\<lambda>z. Num (union_rule (count_cell ps z) (flag_cell fp m' z) (flag_cell fp h z))) zs))
   \<and> (\<exists>T. past fp zs (shapefiles_past p) = Inr T
      \<and> getitem T ''past_sum'' = Inr (map (past_sum_cell fp p) zs)
      \<and> getitem T ''BZ_past'' = Inr (map (past_flag_cell fp p) zs))
   \<and> (\<forall>a b c. union_rule a b c = 1 \<longleftrightarrow> a = Num 1 \<or> b = Num 1 \<or> c = Num 1)
   \<and> (\<forall>a b c. union_rule a b c = 0 \<longleftrightarrow> a \<noteq> Num 1 \<and> b \<noteq> Num 1 \<and> c \<noteq> Num 1)
   \<and> (\<forall>q z. past_flag_cell fp q z = Num 1
         \<longleftrightarrow> (\<exists>x. past_sum_value fp q (unique_id z) = Some x
                  \<and> fmul fp (10 / 100) (geometry z) \<le> x))
   \<and> (\<forall>q z. past_flag_cell fp q z = Num 1 \<or> past_flag_cell fp q z = Num 0)
   \<and> (\<forall>q u x. past_sum_value fp q u = Some x
         \<longleftrightarrow> (\<exists>fs \<in> set (past_fragments q). aggregate_area fp fs u \<noteq> None)
             \<and> x = rsum fp (present_values (map (\<lambda>fs. aggregate_area fp fs u) (past_fragments q))))"
proof -
  have a: "\<exists>T. future fp zs (shapefiles_future m e f) = Inr T
      \<and> getitem T ''mod_20Afg'' = Inr (map (flag_cell fp m) zs)
      \<and> getitem T ''ext_20Afg'' = Inr (map (flag_cell fp e) zs)
      \<and> getitem T ''500Afg'' = Inr (map (flag_cell fp f) zs)
      \<and> getitem T ''BZ_future''
          = Inr (map (\<lambda>z. Num (union_rule (flag_cell fp m z) (flag_cell fp e z) (flag_cell fp f z))) zs)"
    using future_result[of fp zs m e f] by blast
  have b: "\<exists>T. present fp zs (shapefiles_present (points_table ps) m' h) = Inr T
      \<and> getitem T ''depcaAfg'' = Inr (map (count_cell ps) zs)
      \<and> getitem T ''mod_cAfg'' = Inr (map (flag_cell fp m') zs)
      \<and> getitem T ''100Afg'' = Inr (map (flag_cell fp h) zs)
      \<and> getitem T ''BZ_present''
          = Inr (map (\<lambda>z. Num (union_rule (count_cell ps z) (flag_cell fp m' z) (flag_cell fp h z))) zs)"
    using present_result[of fp zs ps m' h] by blast
  have c: "\<exists>T. past fp zs (shapefiles_past p) = Inr T
      \<and> getitem T ''past_sum'' = Inr (map (past_sum_cell fp p) zs)
      \<and> getitem T ''BZ_past'' = Inr (map (past_flag_cell fp p) zs)"
    using past_result[of fp zs p] by blast
  have d: "\<forall>a b c. union_rule a b c = 1 \<longleftrightarrow> a = Num 1 \<or> b = Num 1 \<or> c = Num 1"
    by (simp add: union_rule_def)
  have e: "\<forall>a b c. union_rule a b c = 0 \<longleftrightarrow> a \<noteq> Num 1 \<and> b \<noteq> Num 1 \<and> c \<noteq> Num 1"
    by (simp add: union_rule_def)
  have g: "\<forall>q z. past_flag_cell fp q z = Num 1
         \<longleftrightarrow> (\<exists>x. past_sum_value fp q (unique_id z) = Some x
                  \<and> fmul fp (10 / 100) (geometry z) \<le> x)"
    using past_flag_cell_iff by blast
  have h: "\<forall>q z. past_flag_cell fp q z = Num 1 \<or> past_flag_cell fp q z = Num 0"
    using area_rule_cases by (auto simp: past_flag_cell_def)
  have i: "\<forall>q u x. past_sum_value fp q u = Some x
         \<longleftrightarrow> (\<exists>fs \<in> set (past_fragments q). aggregate_area fp fs u \<noteq> None)
             \<and> x = rsum fp (present_values (map (\<lambda>fs. aggregate_area fp fs u) (past_fragments q)))"
    using past_sum_value_iff by blast
  show ?thesis
    by (intro conjI a b c d e g h i)
qed

theorem epoch_flag_rule_witness:
  "(\<exists>T. future exact ex_zones (shapefiles_future ex_frags [] []) = Inr T
      \<and> getitem T ''mod_20Afg'' = Inr [Num 1, Num 1, Num 0, Num 0]
      \<and> getitem T ''ext_20Afg'' = Inr [Num 0, Num 0, Num 0, Num 0]
      \<and> getitem T ''500Afg'' = Inr [Num 0, Num 0, Num 0, Num 0]
      \<and> getitem T ''BZ_future'' = Inr [Num 1, Num 1, Num 0, Num 0])
   \<and> (\<exists>T. present exact ex_zones (shapefiles_present (points_table ex_points) [] ex_frags) = Inr T
      \<and> getitem T ''depcaAfg'' = Inr [Num 0, Num 0, Num 0, Num 1]
      \<and> getitem T ''mod_cAfg'' = Inr [Num 0, Num 0, Num 0, Num 0]
      \<and> getitem T ''100Afg'' = Inr [Num 1, Num 1, Num 0, Num 0]
      \<and> getitem T ''BZ_present'' = Inr [Num 1, Num 1, Num 0, Num 1])
   \<and> (\<exists>T. past exact ex_zones (shapefiles_past (no_past\<lparr>past_beaches := ex_frags\<rparr>)) = Inr T
      \<and> getitem T ''past_sum'' = Inr [Num 110, Num 100, Num 99, NaN]
      \<and> getitem T ''BZ_past'' = Inr [Num 1, Num 1, Num 0, Num 0])"
proof -
  have u: "map (\<lambda>z. Num (union_rule (flag_cell exact ex_frags z) (flag_cell exact [] z)
                            (flag_cell exact [] z))) ex_zones = [Num 1, Num 1, Num 0, Num 0]"
    "map (\<lambda>z. Num (union_rule (count_cell ex_points z) (flag_cell exact [] z)
                            (flag_cell exact ex_frags z))) ex_zones = [Num 1, Num 1, Num 0, Num 1]"
    by (simp_all add: union_rule_def count_cell_def recorded_count_def zone_points_def
        count_rule_def flag_cell_def aggregate_area_def fragments_of_def area_rule_def
        ex_points_def ex_frags_def ex_zones_def zone_ex_def frag_ex_def point_ex_def exact_def)
  note t = epoch_flag_rule[of exact ex_zones ex_frags "[]" "[]" ex_points "[]" ex_frags
      "no_past\<lparr>past_beaches := ex_frags\<rparr>", unfolded u ex_aggregates ex_counts ex_past]
  show ?thesis
    by (intro conjI t[THEN conjunct1] t[THEN conjunct2, THEN conjunct1]
        t[THEN conjunct2, THEN conjunct2, THEN conjunct1])
qed

text \<open>The claim as stated fails for the past script: a zone of area 1000 that meets the
  beach layer and the river layer in a fragment of area 60 each is below the threshold in
  every layer, so every per-layer flag of the rule is 0, and \<^verbatim>\<open>BZ_past\<close> is 1 because the
  areas are summed over the layers.\<close>

theorem epoch_flag_is_or_counterexample:
  "\<exists>T. past exact [zone_ex 1 1000] (shapefiles_past ex_past_two) = Inr T
     \<and> getitem T ''area'' = Inr [Num 1000]
     \<and> getitem T ''beachA'' = Inr [Num 60]
     \<and> getitem T ''rivA'' = Inr [Num 60]
     \<and> getitem T ''past_sum'' = Inr [Num 120]
     \<and> getitem T ''BZ_past'' = Inr [Num 1]
     \<and> list_all (\<lambda>fs. flag_cell exact fs (zone_ex 1 1000) = Num 0) (past_fragments ex_past_two)"
proof -
  obtain T where T: "past exact [zone_ex 1 1000] (shapefiles_past ex_past_two) = Inr T"
    "getitem T ''area'' = Inr (map (\<lambda>z. Num (geometry z)) [zone_ex 1 1000])"
    "\<forall>j < 10. getitem T (new_field_name (past_flag_fields ! j))
                    = Inr (map (agg_cell exact (past_fragments ex_past_two ! j)) [zone_ex 1 1000])"
    "getitem T ''past_sum'' = Inr (map (past_sum_cell exact ex_past_two) [zone_ex 1 1000])"
    "getitem T ''BZ_past'' = Inr (map (past_flag_cell exact ex_past_two) [zone_ex 1 1000])"
    using past_result[of exact "[zone_ex 1 1000]" ex_past_two] by blast
  have n: "new_field_name (past_flag_fields ! 0) = ''beachA''"
    "new_field_name (past_flag_fields ! 1) = ''rivA''"
    by (simp_all add: past_flag_fields_def)
  have a: "getitem T ''area'' = Inr [Num 1000]"
    using T(2) by (simp add: zone_ex_def)
  have "(0::nat) < 10" "(1::nat) < 10" by simp_all
  then have "getitem T (new_field_name (past_flag_fields ! 0))
             = Inr (map (agg_cell exact (past_fragments ex_past_two ! 0)) [zone_ex 1 1000])"
    "getitem T (new_field_name (past_flag_fields ! 1))
             = Inr (map (agg_cell exact (past_fragments ex_past_two ! 1)) [zone_ex 1 1000])"
    using T(3) by blast+
  then have b: "getitem T ''beachA'' = Inr [Num 60]" "getitem T ''rivA'' = Inr [Num 60]"
    unfolding n ex_two by simp_all
  show ?thesis
    by (intro exI[of _ T] conjI T(1) a b T(4)[unfolded ex_two] T(5)[unfolded ex_two] ex_two(5))
qed

text \<open>
  C6, as amended. In the present script the flag of the 311 layer is 1 for a zone exactly
  when the \<^verbatim>\<open>Point_Coun\<close> attribute recorded for the zone is at least 3, and 0 otherwise,
  where the recorded value is the first \<^verbatim>\<open>Point_Coun\<close> present among the 311 records
  that carry the zone's \<^verbatim>\<open>unique_id\<close>. The script reads this attribute; it does not count
  records or points. A zone whose recorded count is 3 and that has no polygon overlap gets 1
  for this layer and 0 for every area-based layer.
\<close>

theorem point_flag_rule:
  "(\<exists>T. present fp zs (shapefiles_present (points_table ps) m h) = Inr T
      \<and> getitem T ''Point_Coun'' = Inr (map (\<lambda>z. recorded_count ps (unique_id z)) zs)
      \<and> getitem T ''depcaAfg'' = Inr (map (count_cell ps) zs)
      \<and> getitem T ''mod_cAfg'' = Inr (map (flag_cell fp m) zs)
      \<and> getitem T ''100Afg'' = Inr (map (flag_cell fp h) zs))
   \<and> (\<forall>qs z. count_cell qs z = Num 1
         \<longleftrightarrow> (\<exists>x. recorded_count qs (unique_id z) = Num x \<and> 3 \<le> x))
   \<and> (\<forall>qs z. count_cell qs z = Num 1 \<or> count_cell qs z = Num 0)
   \<and> (\<forall>qs fs z. recorded_count qs (unique_id z) = Num 3 \<and> aggregate_area fp fs (unique_id z) = None
         \<longrightarrow> count_cell qs z = Num 1 \<and> flag_cell fp fs z = Num 0)"
proof -
  have a: "\<exists>T. present fp zs (shapefiles_present (points_table ps) m h) = Inr T
      \<and> getitem T ''Point_Coun'' = Inr (map (\<lambda>z. recorded_count ps (unique_id z)) zs)
      \<and> getitem T ''depcaAfg'' = Inr (map (count_cell ps) zs)
      \<and> getitem T ''mod_cAfg'' = Inr (map (flag_cell fp m) zs)
      \<and> getitem T ''100Afg'' = Inr (map (flag_cell fp h) zs)"
    using present_result[of fp zs ps m h] by blast
  have b: "\<forall>qs z. count_cell qs z = Num 1
         \<longleftrightarrow> (\<exists>x. recorded_count qs (unique_id z) = Num x \<and> 3 \<le> x)"
    using count_cell_iff by blast
  have c: "\<forall>qs z. count_cell qs z = Num 1 \<or> count_cell qs z = Num 0"
    using count_cell_binary by blast
  have d: "\<forall>qs fs z. recorded_count qs (unique_id z) = Num 3 \<and> aggregate_area fp fs (unique_id z) = None
         \<longrightarrow> count_cell qs z = Num 1 \<and> flag_cell fp fs z = Num 0"
    by (simp add: count_cell_def count_rule_def flag_cell_def area_rule_def)
  show ?thesis
    by (intro conjI a b c d)
qed

theorem point_flag_rule_witness:
  "\<exists>T. present exact ex_zones (shapefiles_present (points_table ex_points) [] []) = Inr T
      \<and> getitem T ''Point_Coun'' = Inr [NaN, NaN, Num 2, Num 3]
      \<and> getitem T ''depcaAfg'' = Inr [Num 0, Num 0, Num 0, Num 1]
      \<and> getitem T ''mod_cAfg'' = Inr [Num 0, Num 0, Num 0, Num 0]
      \<and> getitem T ''100Afg'' = Inr [Num 0, Num 0, Num 0, Num 0]"
  using point_flag_rule[of exact ex_zones ex_points "[]" "[]", THEN conjunct1,
      unfolded ex_counts ex_aggregates] .

text \<open>The claim as stated fails: zone 1 has three 311 records, each with the attribute
  \<^verbatim>\<open>Point_Coun\<close> 1, and gets the flag 0; zone 2 has one record, with the attribute 5, and
  gets the flag 1.\<close>

theorem point_count_counterexample:
  "\<exists>T. present exact ex_two_zones (shapefiles_present (points_table ex_three_points) [] []) = Inr T
      \<and> getitem T ''Point_Coun'' = Inr [Num 1, Num 5]
      \<and> getitem T ''depcaAfg'' = Inr [Num 0, Num 1]
      \<and> length (zone_points ex_three_points (Num 1)) = 3
      \<and> length (zone_points ex_three_points (Num 2)) = 1"
proof -
  obtain T where T:
    "present exact ex_two_zones (shapefiles_present (points_table ex_three_points) [] []) = Inr T"
    "getitem T ''Point_Coun'' = Inr (map (\<lambda>z. recorded_count ex_three_points (unique_id z)) ex_two_zones)"
    "getitem T ''depcaAfg'' = Inr (map (count_cell ex_three_points) ex_two_zones)"
    using present_result[of exact ex_two_zones ex_three_points "[]" "[]"] by blast
  show ?thesis
    by (intro exI[of _ T] conjI T(1) T(2)[unfolded ex_three] T(3)[unfolded ex_three] ex_three(3,4))
qed




text \<open>
  C8, as amended. A record that lacks a \<^verbatim>\<open>unique_id\<close> is left out of the aggregation
  without being counted or reported. For every layer, the per-layer table, the 311 table and
  the final table of each script are those of the input without its fragments and 311
  records that lack a \<^verbatim>\<open>unique_id\<close>, and no key of a per-layer table or of the 311
  table is missing, so such a record adds to no zone's aggregate. Every run returns its
  final table, with one row for each zone in the zones' order. A zone that lacks a
  \<^verbatim>\<open>unique_id\<close> keeps its row: its aggregates are absent and its flags are 0. The lines
  the past and the present script print are the same with and without the records that
  lack a \<^verbatim>\<open>unique_id\<close>.
\<close>

theorem idless_records_dropped:
  "(\<forall>ff \<in> set past_flag_fields.
       dissolved_past fp (past_entry fs ff) = dissolved_past fp (past_entry (usable fs) ff)
       \<and> (\<exists>d ks. dissolved_past fp (past_entry fs ff) = Inr d
             \<and> getitem d ''unique_id'' = Inr ks \<and> NaN \<notin> set ks))
   \<and> present_311_csv fp (points_table ps) = present_311_csv fp (points_table (usable_points ps))
   \<and> (\<exists>d ks. present_311_csv fp (points_table ps) = Inr d
         \<and> getitem d ''unique_id'' = Inr ks \<and> NaN \<notin> set ks)
   \<and> past fp zs (shapefiles_past p) = past fp zs (shapefiles_past (usable_past p))
   \<and> present fp zs (shapefiles_present (points_table ps) m h)
       = present fp zs (shapefiles_present (points_table (usable_points ps)) (usable m) (usable h))
   \<and> future fp zs (shapefiles_future m' e f)
       = future fp zs (shapefiles_future (usable m') (usable e) (usable f))
   \<and> (\<exists>T. past fp zs (shapefiles_past p) = Inr T
         \<and> getitem T ''unique_id'' = Inr (map unique_id zs)
         \<and> getitem T ''BZ_past'' = Inr (map (past_flag_cell fp p) zs))
   \<and> (\<exists>T. present fp zs (shapefiles_present (points_table ps) m h) = Inr T
         \<and> getitem T ''unique_id'' = Inr (map unique_id zs)
         \<and> getitem T ''depcaAfg'' = Inr (map (count_cell ps) zs)
         \<and> getitem T ''mod_cAfg'' = Inr (map (flag_cell fp m) zs)
         \<and> getitem T ''100Afg'' = Inr (map (flag_cell fp h) zs))
   \<and> (\<exists>T. future fp zs (shapefiles_future m' e f) = Inr T
         \<and> getitem T ''unique_id'' = Inr (map unique_id zs)
         \<and> getitem T ''mod_20Afg'' = Inr (map (flag_cell fp m') zs)
         \<and> getitem T ''ext_20Afg'' = Inr (map (flag_cell fp e) zs)
         \<and> getitem T ''500Afg'' = Inr (map (flag_cell fp f) zs))
   \<and> (\<forall>z. unique_id z = NaN \<longrightarrow>
         agg_cell fp fs z = NaN \<and> flag_cell fp fs z = Num 0 \<and> count_cell ps z = Num 0
         \<and> past_sum_cell fp p z = NaN \<and> past_flag_cell fp p z = Num 0)
   \<and> past_printed out (shapefiles_past p) = past_printed out (shapefiles_past (usable_past p))
   \<and> present_printed out (shapefiles_present (points_table ps) m h)
       = present_printed out
           (shapefiles_present (points_table (usable_points ps)) (usable m) (usable h))"
proof -
  have a: "\<forall>ff \<in> set past_flag_fields.
       dissolved_past fp (past_entry fs ff) = dissolved_past fp (past_entry (usable fs) ff)
       \<and> (\<exists>d ks. dissolved_past fp (past_entry fs ff) = Inr d
             \<and> getitem d ''unique_id'' = Inr ks \<and> NaN \<notin> set ks)"
  proof (intro ballI conjI)
    fix ff assume ff: "ff \<in> set past_flag_fields"
    show "dissolved_past fp (past_entry fs ff) = dissolved_past fp (past_entry (usable fs) ff)"
      by (rule dissolved_past_usable[OF ff, symmetric])
    show "\<exists>d ks. dissolved_past fp (past_entry fs ff) = Inr d
             \<and> getitem d ''unique_id'' = Inr ks \<and> NaN \<notin> set ks"
      by (rule dissolved_past_keys[OF ff])
  qed
  have z: "\<forall>z. unique_id z = NaN \<longrightarrow>
         agg_cell fp fs z = NaN \<and> flag_cell fp fs z = Num 0 \<and> count_cell ps z = Num 0
         \<and> past_sum_cell fp p z = NaN \<and> past_flag_cell fp p z = Num 0"
    by (intro allI impI idless_zone_cells)
  show ?thesis
    by (intro conjI a present_311_usable[symmetric] present_311_keys past_usable[symmetric]
        present_usable[symmetric] future_usable[symmetric] past_rows present_rows future_rows z
        past_printed_usable[symmetric] present_printed_usable[symmetric])
qed

theorem idless_records_dropped_witness:
  "dissolved_past exact (past_entry [frag_ex 1 150, frag_idless] ''beaches'')
     = dissolved_past exact (past_entry [frag_ex 1 150] ''beaches'')
   \<and> present_311_csv exact (points_table [point_ex 4 3, point_idless])
     = present_311_csv exact (points_table [point_ex 4 3])
   \<and> flag_cell exact [frag_ex 1 150, frag_idless] zone_idless = Num 0
   \<and> count_cell [point_ex 4 3, point_idless] zone_idless = Num 0"
  using idless_records_dropped[of exact "[frag_ex 1 150, frag_idless]"
      "[point_ex 4 3, point_idless]" "[zone_idless]" no_past "[]" "[]" "[]" "[]" "[]" "[]"]
  by (simp add: past_flag_fields_def usable_def usable_points_def frag_idless_def
      point_idless_def frag_ex_def point_ex_def zone_idless_def)

text \<open>
  C8 as first stated does not hold: nothing counts or reports the records left out. The
  beach layer with one fragment that lacks a \<^verbatim>\<open>unique_id\<close> (area 500) and the beach
  layer without it give the past script the same per-layer tables, the same final table and
  the same printed lines, although the first input has one such record and the second none.
\<close>

theorem silent_skip_counterexample:
  "(\<exists>ds T. mapE (dissolved_past exact) (shapefiles_past ex_past_idless) = Inr ds
       \<and> mapE (dissolved_past exact) (shapefiles_past ex_past_beach) = Inr ds
       \<and> past exact [zone_ex 1 1000] (shapefiles_past ex_past_idless) = Inr T
       \<and> past exact [zone_ex 1 1000] (shapefiles_past ex_past_beach) = Inr T)
   \<and> past_printed ''past_union.csv'' (shapefiles_past ex_past_idless)
       = past_printed ''past_union.csv'' (shapefiles_past ex_past_beach)
   \<and> length (filter (\<lambda>f. frag_unique_id f = NaN) (past_beaches ex_past_idless)) = 1
   \<and> length (filter (\<lambda>f. frag_unique_id f = NaN) (past_beaches ex_past_beach)) = 0"
proof -
  obtain T where T: "past exact [zone_ex 1 1000] (shapefiles_past ex_past_beach) = Inr T"
    using past_rows[of exact "[zone_ex 1 1000]" ex_past_beach] by (elim exE conjE)
  have T': "past exact [zone_ex 1 1000] (shapefiles_past ex_past_idless) = Inr T"
    using past_usable[of exact "[zone_ex 1 1000]" ex_past_idless] T
    by (simp add: ex_idless_count(3))
  let ?ds = "map (\<lambda>q. tab (fst q) (snd q)) (past_specs exact ex_past_beach)"
  have d: "mapE (dissolved_past exact) (shapefiles_past ex_past_beach) = Inr ?ds"
    by (rule past_dissolved)
  have "past_specs exact ex_past_idless = past_specs exact (usable_past ex_past_idless)"
    by (rule past_specs_usable[symmetric])
  then have d': "mapE (dissolved_past exact) (shapefiles_past ex_past_idless) = Inr ?ds"
    by (simp add: past_dissolved ex_idless_count(3))
  have e: "\<exists>ds T. mapE (dissolved_past exact) (shapefiles_past ex_past_idless) = Inr ds
       \<and> mapE (dissolved_past exact) (shapefiles_past ex_past_beach) = Inr ds
       \<and> past exact [zone_ex 1 1000] (shapefiles_past ex_past_idless) = Inr T
       \<and> past exact [zone_ex 1 1000] (shapefiles_past ex_past_beach) = Inr T"
    by (intro exI[of _ ?ds] exI[of _ T] conjI d d' T T')
  have pr: "past_printed ''past_union.csv'' (shapefiles_past ex_past_idless)
       = past_printed ''past_union.csv'' (shapefiles_past ex_past_beach)"
    using past_printed_usable[of "''past_union.csv''" ex_past_idless]
    by (simp add: ex_idless_count(3))
  show ?thesis
    by (intro conjI e pr ex_idless_count(1) ex_idless_count(2))
qed

end
